theory Spec2Isabelle
  imports Main
begin

section \<open>Values\<close>

text \<open>
  The handlers of \<^verbatim>\<open>app.py\<close> work on what \<^verbatim>\<open>request.get_json()\<close> returns: any JSON
  value, as a Python object, and the model of a handler starts from that value. \<open>JNull\<close>
  is Python's \<^verbatim>\<open>None\<close>, \<open>JObj\<close> a \<^verbatim>\<open>dict\<close>, read with \<open>map_of\<close>, and \<open>JArr\<close> a
  \<^verbatim>\<open>list\<close>. A string stands for a text that can be written as UTF-8. Numbers with a
  fraction are left out.
\<close>

datatype json =
    JNull
  | JBool bool
  | JInt int
  | JStr string
  | JArr "json list"
  | JObj "(string \<times> json) list"

text \<open>Python's truth value of an object, as \<^verbatim>\<open>not body\<close> and \<^verbatim>\<open>if existing\<close> use it.\<close>

fun truthy :: "json \<Rightarrow> bool" where
  "truthy JNull = False"
| "truthy (JBool b) = b"
| "truthy (JInt n) = (n \<noteq> 0)"
| "truthy (JStr s) = (s \<noteq> [])"
| "truthy (JArr xs) = (xs \<noteq> [])"
| "truthy (JObj kvs) = (kvs \<noteq> [])"

text \<open>
  The exceptions the handlers can meet; each handler catches \<^verbatim>\<open>Exception\<close>, rolls the
  session back and answers 500. \<open>InterfaceError\<close> stands for the error of the database
  driver for a parameter of a type it does not support.
\<close>

datatype exn =
  AttributeError | TypeError | KeyError | IntegrityError | OverflowError | InterfaceError

text \<open>\<^verbatim>\<open>body.get(k)\<close>: the value of a dict at \<open>k\<close>, \<^verbatim>\<open>None\<close> without the key; only a dict has the method.\<close>

definition dict_get :: "(string \<times> json) list \<Rightarrow> string \<Rightarrow> json" where
  "dict_get kvs k = (case map_of kvs k of None \<Rightarrow> JNull | Some v \<Rightarrow> v)"

fun py_get :: "json \<Rightarrow> string \<Rightarrow> exn + json" where
  "py_get (JObj kvs) k = Inr (dict_get kvs k)"
| "py_get _ k = Inl AttributeError"

text \<open>\<^verbatim>\<open>k in s\<close> on two strings: \<open>k\<close> occurs in \<open>s\<close> as a contiguous piece.\<close>

fun str_contains :: "string \<Rightarrow> string \<Rightarrow> bool" where
  "str_contains [] k = (k = [])"
| "str_contains (c # s) k = (take (length k) (c # s) = k \<or> str_contains s k)"

text \<open>
  \<^verbatim>\<open>k in body\<close>: a key of a dict, an element of a list, a piece of a string; a number
  or a boolean is not iterable.
\<close>

fun py_contains :: "json \<Rightarrow> string \<Rightarrow> exn + bool" where
  "py_contains (JObj kvs) k = Inr (map_of kvs k \<noteq> None)"
| "py_contains (JArr xs) k = Inr (JStr k \<in> set xs)"
| "py_contains (JStr s) k = Inr (str_contains s k)"
| "py_contains _ k = Inl TypeError"

text \<open>\<^verbatim>\<open>body[k]\<close> with a string \<open>k\<close>: only a dict can be indexed by a string.\<close>

fun py_getitem :: "json \<Rightarrow> string \<Rightarrow> exn + json" where
  "py_getitem (JObj kvs) k = (case map_of kvs k of None \<Rightarrow> Inl KeyError | Some v \<Rightarrow> Inr v)"
| "py_getitem _ k = Inl TypeError"

text \<open>Sequencing of steps that may raise.\<close>

fun and_then :: "exn + 'a \<Rightarrow> ('a \<Rightarrow> exn + 'b) \<Rightarrow> exn + 'b" where
  "and_then (Inl e) f = Inl e"
| "and_then (Inr x) f = f x"

section \<open>What the store keeps of a value\<close>

text \<open>
  The store is the SQLite database that app.py falls back to when \<^verbatim>\<open>DATABASE_URL\<close> is
  not set. Its driver takes \<^verbatim>\<open>None\<close>, strings and integers of 64 bits as parameters of a
  statement (a boolean counts as the integer 1 or 0). A list or a dict is refused, and
  so is a larger integer: the statement raises, and the handler's \<^verbatim>\<open>except\<close> branch
  answers 500.
\<close>

definition sqlite_int :: "int \<Rightarrow> bool" where
  "sqlite_int n \<longleftrightarrow> - (2 ^ 63) \<le> n \<and> n < 2 ^ 63"

fun bind_param :: "json \<Rightarrow> exn + json" where
  "bind_param JNull = Inr JNull"
| "bind_param (JBool b) = Inr (JInt (if b then 1 else 0))"
| "bind_param (JInt n) = (if sqlite_int n then Inr (JInt n) else Inl OverflowError)"
| "bind_param (JStr s) = Inr (JStr s)"
| "bind_param (JArr xs) = Inl InterfaceError"
| "bind_param (JObj kvs) = Inl InterfaceError"

text \<open>The decimal text of an integer.\<close>

definition digit_char :: "nat \<Rightarrow> char" where
  "digit_char d = char_of (48 + d)"

function digits :: "nat \<Rightarrow> string" where
  "digits n = (if n < 10 then [digit_char n] else digits (n div 10) @ [digit_char (n mod 10)])"
  by pat_completeness auto
termination
  by (relation "measure id") auto

definition decimal :: "int \<Rightarrow> string" where
  "decimal n = (if n < 0 then CHR ''-'' # digits (nat (- n)) else digits (nat n))"

text \<open>
  The String and Text columns of models.py have TEXT affinity: an integer written to
  them is stored as its decimal text, and a comparison with such a column reads the
  other side as text as well. An integer that does not fit is never stored or compared.
\<close>

fun text_affinity :: "json \<Rightarrow> json" where
  "text_affinity (JInt n) = (if sqlite_int n then JStr (decimal n) else JInt n)"
| "text_affinity (JBool b) = JStr (decimal (if b then 1 else 0))"
| "text_affinity v = v"

text \<open>
  The Integer column \<^verbatim>\<open>homeworld_id\<close> has INTEGER affinity: a text that is an integer
  literal (a sign, digits, white space around them) of 64 bits is stored as that
  integer, any other text as it is. A text that SQLite reads as a number with a fraction
  or an exponent, or as an integer beyond 64 bits, becomes a floating-point number
  there; such numbers are left out of \<open>json\<close>, and the definition keeps the text.
\<close>

definition is_space :: "char \<Rightarrow> bool" where
  "is_space c \<longleftrightarrow> of_char c \<in> {9 :: nat, 10, 11, 12, 13, 32}"

definition is_digit :: "char \<Rightarrow> bool" where
  "is_digit c \<longleftrightarrow> 48 \<le> (of_char c :: nat) \<and> (of_char c :: nat) \<le> 57"

definition digits_value :: "string \<Rightarrow> int" where
  "digits_value ds = foldl (\<lambda>a c. 10 * a + (int (of_char c) - 48)) 0 ds"

definition trim :: "string \<Rightarrow> string" where
  "trim s = rev (dropWhile is_space (rev (dropWhile is_space s)))"

fun signed_digits :: "string \<Rightarrow> (int \<times> string)" where
  "signed_digits [] = (1, [])"
| "signed_digits (c # cs) =
     (if c = CHR ''-'' then (- 1, cs) else if c = CHR ''+'' then (1, cs) else (1, c # cs))"

definition integer_literal :: "string \<Rightarrow> int option" where
  "integer_literal s =
     (case signed_digits (trim s) of
        (sign, ds) \<Rightarrow>
          if ds \<noteq> [] \<and> list_all is_digit ds \<and> sqlite_int (sign * digits_value ds)
          then Some (sign * digits_value ds) else None)"

fun integer_affinity :: "json \<Rightarrow> json" where
  "integer_affinity (JStr s) = (case integer_literal s of None \<Rightarrow> JStr s | Some n \<Rightarrow> JInt n)"
| "integer_affinity v = v"

text \<open>A value written to a column: bound as a parameter, then stored with the affinity.\<close>

definition store_text :: "json \<Rightarrow> exn + json" where
  "store_text v = and_then (bind_param v) (\<lambda>b. Inr (text_affinity b))"

definition store_integer :: "json \<Rightarrow> exn + json" where
  "store_integer v = and_then (bind_param v) (\<lambda>b. Inr (integer_affinity b))"

text \<open>
  An UPDATE writes the columns whose attribute was given a value other than the one
  loaded; the other columns keep what is stored.
\<close>

definition write_cell :: "(json \<Rightarrow> exn + json) \<Rightarrow> json \<Rightarrow> json \<Rightarrow> exn + json" where
  "write_cell store_value old new = (if new = old then Inr old else store_value new)"

section \<open>Data model (models.py)\<close>

text \<open>
  A \<^verbatim>\<open>datetime\<close> is kept as the text \<^verbatim>\<open>isoformat()\<close> gives for it; a datetime object is
  always true in Python, so \<^verbatim>\<open>x.isoformat() if x else None\<close> tests for \<^verbatim>\<open>None\<close> only.
\<close>

datatype datetime = Datetime (isoformat: string)

text \<open>
  A row holds in each data column the value that is stored there: what the handler
  assigned to the attribute, as the store keeps it (\<open>store_text\<close>, \<open>store_integer\<close>).
  SQLite does not check the declared lengths, nor, as the application opens it, the
  foreign keys; the columns declared \<^verbatim>\<open>nullable=False\<close> refuse \<^verbatim>\<open>None\<close>. Primary keys
  and the foreign keys of the favorite tables are integers: the handlers only ever
  write route parameters (\<^verbatim>\<open><int:...>\<close>) and the constant 1 there.
\<close>

record user =
  u_id :: int
  u_username :: string
  u_email :: string
  u_password_hash :: string
  u_first_name :: string
  u_last_name :: string
  u_created_at :: "datetime option"
  u_is_active :: bool

record character =
  c_id :: int
  c_name :: json
  c_height :: json
  c_mass :: json
  c_hair_color :: json
  c_skin_color :: json
  c_eye_color :: json
  c_birth_year :: json
  c_gender :: json
  c_homeworld_id :: json
  c_description :: json
  c_image_url :: json
  c_created_at :: "datetime option"

record planet =
  p_id :: int
  p_name :: json
  p_rotation_period :: json
  p_orbital_period :: json
  p_diameter :: json
  p_climate :: json
  p_gravity :: json
  p_terrain :: json
  p_surface_water :: json
  p_population :: json
  p_description :: json
  p_image_url :: json
  p_created_at :: "datetime option"

record favorite_character =
  fc_id :: int
  fc_user_id :: int
  fc_character_id :: int
  fc_created_at :: "datetime option"

record favorite_planet =
  fp_id :: int
  fp_user_id :: int
  fp_planet_id :: int
  fp_created_at :: "datetime option"

text \<open>The store: one table per model class, rows in insertion order.\<close>

record store =
  users :: "user list"
  characters :: "character list"
  planets :: "planet list"
  favorite_characters :: "favorite_character list"
  favorite_planets :: "favorite_planet list"

subsection \<open>Queries\<close>

text \<open>
  The row of a table with a given primary key. The keys of a SQLite table are integers
  of 64 bits, so no row has a key outside that range.
\<close>

definition get_user :: "store \<Rightarrow> int \<Rightarrow> user option" where
  "get_user st i = find (\<lambda>u. u_id u = i) (users st)"

definition get_character :: "store \<Rightarrow> int \<Rightarrow> character option" where
  "get_character st i = (if sqlite_int i then find (\<lambda>c. c_id c = i) (characters st) else None)"

definition get_planet :: "store \<Rightarrow> int \<Rightarrow> planet option" where
  "get_planet st i = (if sqlite_int i then find (\<lambda>p. p_id p = i) (planets st) else None)"

text \<open>
  \<^verbatim>\<open>Model.query.get(id)\<close> with the id of the route: the id is bound as a parameter of the
  SELECT, which raises \<^verbatim>\<open>OverflowError\<close> for an id that is not an integer of 64 bits
  (the converter \<^verbatim>\<open><int:...>\<close> of the route accepts any number of digits); otherwise the
  row with that key, or \<^verbatim>\<open>None\<close>.
\<close>

definition query_get_character :: "store \<Rightarrow> int \<Rightarrow> exn + character option" where
  "query_get_character st i =
     (if sqlite_int i then Inr (get_character st i) else Inl OverflowError)"

definition query_get_planet :: "store \<Rightarrow> int \<Rightarrow> exn + planet option" where
  "query_get_planet st i =
     (if sqlite_int i then Inr (get_planet st i) else Inl OverflowError)"

text \<open>
  \<^verbatim>\<open>Model.query.filter_by(name=...).first()\<close>: the first row whose name equals the value,
  both read as text (see \<open>text_affinity\<close>), or \<^verbatim>\<open>None\<close>. The driver refuses a value that
  \<open>bind_param\<close> refuses already here; no stored name equals such a value, so the model
  finds no row and the refusal comes with the insertion that follows in the handler,
  with the same answer.
\<close>

definition character_by_name :: "store \<Rightarrow> json \<Rightarrow> character option" where
  "character_by_name st n =
     find (\<lambda>c. text_affinity (c_name c) = text_affinity n) (characters st)"

definition planet_by_name :: "store \<Rightarrow> json \<Rightarrow> planet option" where
  "planet_by_name st n =
     find (\<lambda>p. text_affinity (p_name p) = text_affinity n) (planets st)"

text \<open>\<^verbatim>\<open>Model.query.filter_by(user_id=..., ..._id=...).first()\<close> on a favorite table.\<close>

definition favorite_character_by :: "store \<Rightarrow> int \<Rightarrow> int \<Rightarrow> favorite_character option" where
  "favorite_character_by st uid cid =
     find (\<lambda>f. fc_user_id f = uid \<and> fc_character_id f = cid) (favorite_characters st)"

definition favorite_planet_by :: "store \<Rightarrow> int \<Rightarrow> int \<Rightarrow> favorite_planet option" where
  "favorite_planet_by st uid pid =
     find (\<lambda>f. fp_user_id f = uid \<and> fp_planet_id f = pid) (favorite_planets st)"

text \<open>
  The relationships of models.py, read through the foreign key: \<^verbatim>\<open>Character.homeworld\<close>,
  \<^verbatim>\<open>FavoriteCharacter.character\<close> (the backref of \<^verbatim>\<open>Character.favorite_by_users\<close>) and
  \<^verbatim>\<open>FavoritePlanet.planet\<close>.
\<close>

definition homeworld :: "store \<Rightarrow> character \<Rightarrow> planet option" where
  "homeworld st c = (case c_homeworld_id c of JInt i \<Rightarrow> get_planet st i | _ \<Rightarrow> None)"

definition fc_character :: "store \<Rightarrow> favorite_character \<Rightarrow> character option" where
  "fc_character st f = get_character st (fc_character_id f)"

definition fp_planet :: "store \<Rightarrow> favorite_planet \<Rightarrow> planet option" where
  "fp_planet st f = get_planet st (fp_planet_id f)"

text \<open>
  The primary key of a new row is given by the database, not by the repository: SQLite
  takes one more than the largest key of the table, and 1 on an empty table. (When the
  largest key is the last integer of 64 bits SQLite looks for a free key at random; the
  properties below on a created row assume that the key \<open>next_id\<close> gives is in range.)
\<close>

definition next_id :: "int list \<Rightarrow> int" where
  "next_id ids = (case ids of [] \<Rightarrow> 1 | i # js \<Rightarrow> fold max js i + 1)"

text \<open>
  \<^verbatim>\<open>db.session.add(row)\<close> followed by \<^verbatim>\<open>db.session.commit()\<close>. The INSERT binds the
  value of every column, so it raises when one of them is refused; the row that joins
  the table, and that the handler then serializes, holds the values as stored.
\<close>

definition stored_character :: "character \<Rightarrow> exn + character" where
  "stored_character r =
     and_then (store_text (c_name r)) (\<lambda>name.
     and_then (store_text (c_height r)) (\<lambda>height.
     and_then (store_text (c_mass r)) (\<lambda>mass.
     and_then (store_text (c_hair_color r)) (\<lambda>hair_color.
     and_then (store_text (c_skin_color r)) (\<lambda>skin_color.
     and_then (store_text (c_eye_color r)) (\<lambda>eye_color.
     and_then (store_text (c_birth_year r)) (\<lambda>birth_year.
     and_then (store_text (c_gender r)) (\<lambda>gender.
     and_then (store_integer (c_homeworld_id r)) (\<lambda>homeworld_id.
     and_then (store_text (c_description r)) (\<lambda>description.
     and_then (store_text (c_image_url r)) (\<lambda>image_url.
     Inr \<lparr>c_id = c_id r,
          c_name = name,
          c_height = height,
          c_mass = mass,
          c_hair_color = hair_color,
          c_skin_color = skin_color,
          c_eye_color = eye_color,
          c_birth_year = birth_year,
          c_gender = gender,
          c_homeworld_id = homeworld_id,
          c_description = description,
          c_image_url = image_url,
          c_created_at = c_created_at r\<rparr>)))))))))))"

definition stored_planet :: "planet \<Rightarrow> exn + planet" where
  "stored_planet r =
     and_then (store_text (p_name r)) (\<lambda>name.
     and_then (store_text (p_rotation_period r)) (\<lambda>rotation_period.
     and_then (store_text (p_orbital_period r)) (\<lambda>orbital_period.
     and_then (store_text (p_diameter r)) (\<lambda>diameter.
     and_then (store_text (p_climate r)) (\<lambda>climate.
     and_then (store_text (p_gravity r)) (\<lambda>gravity.
     and_then (store_text (p_terrain r)) (\<lambda>terrain.
     and_then (store_text (p_surface_water r)) (\<lambda>surface_water.
     and_then (store_text (p_population r)) (\<lambda>population.
     and_then (store_text (p_description r)) (\<lambda>description.
     and_then (store_text (p_image_url r)) (\<lambda>image_url.
     Inr \<lparr>p_id = p_id r,
          p_name = name,
          p_rotation_period = rotation_period,
          p_orbital_period = orbital_period,
          p_diameter = diameter,
          p_climate = climate,
          p_gravity = gravity,
          p_terrain = terrain,
          p_surface_water = surface_water,
          p_population = population,
          p_description = description,
          p_image_url = image_url,
          p_created_at = p_created_at r\<rparr>)))))))))))"

definition add_character :: "store \<Rightarrow> character \<Rightarrow> exn + store \<times> character" where
  "add_character st c =
     and_then (stored_character c) (\<lambda>r. Inr (st\<lparr>characters := characters st @ [r]\<rparr>, r))"

definition add_planet :: "store \<Rightarrow> planet \<Rightarrow> exn + store \<times> planet" where
  "add_planet st p =
     and_then (stored_planet p) (\<lambda>r. Inr (st\<lparr>planets := planets st @ [r]\<rparr>, r))"

text \<open>
  A favorite row holds the constant 1 and the id of a row that was just found: both are
  integers of 64 bits, and the INSERT does not fail.
\<close>

definition add_favorite_character_row :: "store \<Rightarrow> favorite_character \<Rightarrow> store" where
  "add_favorite_character_row st f = st\<lparr>favorite_characters := favorite_characters st @ [f]\<rparr>"

definition add_favorite_planet_row :: "store \<Rightarrow> favorite_planet \<Rightarrow> store" where
  "add_favorite_planet_row st f = st\<lparr>favorite_planets := favorite_planets st @ [f]\<rparr>"

subsection \<open>Serialization\<close>

definition iso_or_null :: "datetime option \<Rightarrow> json" where
  "iso_or_null t = (case t of None \<Rightarrow> JNull | Some d \<Rightarrow> JStr (isoformat d))"

definition serialize_planet :: "planet \<Rightarrow> json" where
  "serialize_planet p = JObj
     [(''id'', JInt (p_id p)),
      (''name'', p_name p),
      (''rotation_period'', p_rotation_period p),
      (''orbital_period'', p_orbital_period p),
      (''diameter'', p_diameter p),
      (''climate'', p_climate p),
      (''gravity'', p_gravity p),
      (''terrain'', p_terrain p),
      (''surface_water'', p_surface_water p),
      (''population'', p_population p),
      (''description'', p_description p),
      (''image_url'', p_image_url p),
      (''created_at'', iso_or_null (p_created_at p))]"

definition serialize_character :: "store \<Rightarrow> character \<Rightarrow> json" where
  "serialize_character st c = JObj
     [(''id'', JInt (c_id c)),
      (''name'', c_name c),
      (''height'', c_height c),
      (''mass'', c_mass c),
      (''hair_color'', c_hair_color c),
      (''skin_color'', c_skin_color c),
      (''eye_color'', c_eye_color c),
      (''birth_year'', c_birth_year c),
      (''gender'', c_gender c),
      (''homeworld'', (case homeworld st c of None \<Rightarrow> JNull | Some p \<Rightarrow> serialize_planet p)),
      (''description'', c_description c),
      (''image_url'', c_image_url c),
      (''created_at'', iso_or_null (c_created_at c))]"

definition serialize_favorite_character :: "store \<Rightarrow> favorite_character \<Rightarrow> json" where
  "serialize_favorite_character st f = JObj
     [(''id'', JInt (fc_id f)),
      (''user_id'', JInt (fc_user_id f)),
      (''character_id'', JInt (fc_character_id f)),
      (''character'', (case fc_character st f of None \<Rightarrow> JNull
                       | Some c \<Rightarrow> serialize_character st c)),
      (''created_at'', iso_or_null (fc_created_at f))]"

definition serialize_favorite_planet :: "store \<Rightarrow> favorite_planet \<Rightarrow> json" where
  "serialize_favorite_planet st f = JObj
     [(''id'', JInt (fp_id f)),
      (''user_id'', JInt (fp_user_id f)),
      (''planet_id'', JInt (fp_planet_id f)),
      (''planet'', (case fp_planet st f of None \<Rightarrow> JNull | Some p \<Rightarrow> serialize_planet p)),
      (''created_at'', iso_or_null (fp_created_at f))]"

section \<open>Request handlers (app.py)\<close>

text \<open>
  A handler takes the store and returns the store after the request and the response:
  the JSON body and the status code. \<open>Error_of e\<close> is the body
  \<^verbatim>\<open>jsonify({"error": str(e)})\<close> of the \<^verbatim>\<open>except Exception as e\<close> branch, whose text is the
  interpreter's or the database's.
\<close>

datatype body = Json json | Error_of exn

type_synonym response = "body \<times> nat"

definition error_json :: "string \<Rightarrow> body" where
  "error_json msg = Json (JObj [(''error'', JStr msg)])"

definition status_code :: "store \<times> response \<Rightarrow> nat" where
  "status_code r = snd (snd r)"

definition response_body :: "store \<times> response \<Rightarrow> body" where
  "response_body r = fst (snd r)"

definition store_after :: "store \<times> response \<Rightarrow> store" where
  "store_after r = fst r"

subsection \<open>Create\<close>

text \<open>
  The constructor call of \<^verbatim>\<open>create_person\<close>: eleven \<^verbatim>\<open>body.get\<close>. The key and
  \<^verbatim>\<open>created_at\<close> (default \<^verbatim>\<open>datetime.utcnow\<close>) are filled in when the row is inserted:
  \<open>i\<close> is the key the table gives, \<open>now\<close> the clock.
\<close>

definition new_character :: "json \<Rightarrow> int \<Rightarrow> datetime \<Rightarrow> exn + character" where
  "new_character body i now =
     and_then (py_get body ''name'') (\<lambda>name.
     and_then (py_get body ''height'') (\<lambda>height.
     and_then (py_get body ''mass'') (\<lambda>mass.
     and_then (py_get body ''hair_color'') (\<lambda>hair_color.
     and_then (py_get body ''skin_color'') (\<lambda>skin_color.
     and_then (py_get body ''eye_color'') (\<lambda>eye_color.
     and_then (py_get body ''birth_year'') (\<lambda>birth_year.
     and_then (py_get body ''gender'') (\<lambda>gender.
     and_then (py_get body ''homeworld_id'') (\<lambda>homeworld_id.
     and_then (py_get body ''description'') (\<lambda>description.
     and_then (py_get body ''image_url'') (\<lambda>image_url.
     Inr \<lparr>c_id = i,
          c_name = name,
          c_height = height,
          c_mass = mass,
          c_hair_color = hair_color,
          c_skin_color = skin_color,
          c_eye_color = eye_color,
          c_birth_year = birth_year,
          c_gender = gender,
          c_homeworld_id = homeworld_id,
          c_description = description,
          c_image_url = image_url,
          c_created_at = Some now\<rparr>)))))))))))"

definition new_planet :: "json \<Rightarrow> int \<Rightarrow> datetime \<Rightarrow> exn + planet" where
  "new_planet body i now =
     and_then (py_get body ''name'') (\<lambda>name.
     and_then (py_get body ''rotation_period'') (\<lambda>rotation_period.
     and_then (py_get body ''orbital_period'') (\<lambda>orbital_period.
     and_then (py_get body ''diameter'') (\<lambda>diameter.
     and_then (py_get body ''climate'') (\<lambda>climate.
     and_then (py_get body ''gravity'') (\<lambda>gravity.
     and_then (py_get body ''terrain'') (\<lambda>terrain.
     and_then (py_get body ''surface_water'') (\<lambda>surface_water.
     and_then (py_get body ''population'') (\<lambda>population.
     and_then (py_get body ''description'') (\<lambda>description.
     and_then (py_get body ''image_url'') (\<lambda>image_url.
     Inr \<lparr>p_id = i,
          p_name = name,
          p_rotation_period = rotation_period,
          p_orbital_period = orbital_period,
          p_diameter = diameter,
          p_climate = climate,
          p_gravity = gravity,
          p_terrain = terrain,
          p_surface_water = surface_water,
          p_population = population,
          p_description = description,
          p_image_url = image_url,
          p_created_at = Some now\<rparr>)))))))))))"

definition create_person :: "store \<Rightarrow> datetime \<Rightarrow> json \<Rightarrow> store \<times> response" where
  "create_person st now body =
     (if \<not> truthy body then (st, error_json ''Request body is required'', 400)
      else case py_get body ''name'' of
        Inl e \<Rightarrow> (st, Error_of e, 500)
      | Inr name \<Rightarrow>
          if \<not> truthy name then (st, error_json ''Name is required'', 400)
          else if character_by_name st name \<noteq> None
          then (st, error_json ''Character with this name already exists'', 400)
          else (case and_then (new_character body (next_id (map c_id (characters st))) now)
                            (add_character st) of
                  Inl e \<Rightarrow> (st, Error_of e, 500)
                | Inr r \<Rightarrow> (fst r, Json (serialize_character (fst r) (snd r)), 201)))"

definition create_planet :: "store \<Rightarrow> datetime \<Rightarrow> json \<Rightarrow> store \<times> response" where
  "create_planet st now body =
     (if \<not> truthy body then (st, error_json ''Request body is required'', 400)
      else case py_get body ''name'' of
        Inl e \<Rightarrow> (st, Error_of e, 500)
      | Inr name \<Rightarrow>
          if \<not> truthy name then (st, error_json ''Name is required'', 400)
          else if planet_by_name st name \<noteq> None
          then (st, error_json ''Planet with this name already exists'', 400)
          else (case and_then (new_planet body (next_id (map p_id (planets st))) now)
                            (add_planet st) of
                  Inl e \<Rightarrow> (st, Error_of e, 500)
                | Inr r \<Rightarrow> (fst r, Json (serialize_planet (snd r)), 201)))"

subsection \<open>Update\<close>

text \<open>\<^verbatim>\<open>if k in body: row.k = body[k]\<close>.\<close>

definition set_if_present :: "json \<Rightarrow> string \<Rightarrow> (json \<Rightarrow> 'r \<Rightarrow> 'r) \<Rightarrow> 'r \<Rightarrow> exn + 'r" where
  "set_if_present body k upd r =
     and_then (py_contains body k) (\<lambda>present.
       if present then and_then (py_getitem body k) (\<lambda>v. Inr (upd v r)) else Inr r)"

definition apply_character_body :: "json \<Rightarrow> character \<Rightarrow> exn + character" where
  "apply_character_body body r0 =
     and_then (set_if_present body ''name'' (\<lambda>v. c_name_update (\<lambda>_. v)) r0) (\<lambda>r1.
     and_then (set_if_present body ''height'' (\<lambda>v. c_height_update (\<lambda>_. v)) r1) (\<lambda>r2.
     and_then (set_if_present body ''mass'' (\<lambda>v. c_mass_update (\<lambda>_. v)) r2) (\<lambda>r3.
     and_then (set_if_present body ''hair_color'' (\<lambda>v. c_hair_color_update (\<lambda>_. v)) r3) (\<lambda>r4.
     and_then (set_if_present body ''skin_color'' (\<lambda>v. c_skin_color_update (\<lambda>_. v)) r4) (\<lambda>r5.
     and_then (set_if_present body ''eye_color'' (\<lambda>v. c_eye_color_update (\<lambda>_. v)) r5) (\<lambda>r6.
     and_then (set_if_present body ''birth_year'' (\<lambda>v. c_birth_year_update (\<lambda>_. v)) r6) (\<lambda>r7.
     and_then (set_if_present body ''gender'' (\<lambda>v. c_gender_update (\<lambda>_. v)) r7) (\<lambda>r8.
     and_then (set_if_present body ''homeworld_id'' (\<lambda>v. c_homeworld_id_update (\<lambda>_. v)) r8) (\<lambda>r9.
     and_then (set_if_present body ''description'' (\<lambda>v. c_description_update (\<lambda>_. v)) r9) (\<lambda>r10.
     and_then (set_if_present body ''image_url'' (\<lambda>v. c_image_url_update (\<lambda>_. v)) r10) (\<lambda>r11.
     Inr r11)))))))))))"

definition apply_planet_body :: "json \<Rightarrow> planet \<Rightarrow> exn + planet" where
  "apply_planet_body body r0 =
     and_then (set_if_present body ''name'' (\<lambda>v. p_name_update (\<lambda>_. v)) r0) (\<lambda>r1.
     and_then (set_if_present body ''rotation_period'' (\<lambda>v. p_rotation_period_update (\<lambda>_. v)) r1) (\<lambda>r2.
     and_then (set_if_present body ''orbital_period'' (\<lambda>v. p_orbital_period_update (\<lambda>_. v)) r2) (\<lambda>r3.
     and_then (set_if_present body ''diameter'' (\<lambda>v. p_diameter_update (\<lambda>_. v)) r3) (\<lambda>r4.
     and_then (set_if_present body ''climate'' (\<lambda>v. p_climate_update (\<lambda>_. v)) r4) (\<lambda>r5.
     and_then (set_if_present body ''gravity'' (\<lambda>v. p_gravity_update (\<lambda>_. v)) r5) (\<lambda>r6.
     and_then (set_if_present body ''terrain'' (\<lambda>v. p_terrain_update (\<lambda>_. v)) r6) (\<lambda>r7.
     and_then (set_if_present body ''surface_water'' (\<lambda>v. p_surface_water_update (\<lambda>_. v)) r7) (\<lambda>r8.
     and_then (set_if_present body ''population'' (\<lambda>v. p_population_update (\<lambda>_. v)) r8) (\<lambda>r9.
     and_then (set_if_present body ''description'' (\<lambda>v. p_description_update (\<lambda>_. v)) r9) (\<lambda>r10.
     and_then (set_if_present body ''image_url'' (\<lambda>v. p_image_url_update (\<lambda>_. v)) r10) (\<lambda>r11.
     Inr r11)))))))))))"

text \<open>
  \<^verbatim>\<open>db.session.commit()\<close> after the assignments: the UPDATE writes the changed columns,
  each value bound and stored as in an INSERT. The \<^verbatim>\<open>name\<close> columns are declared
  \<^verbatim>\<open>nullable=False\<close> (models.py, lines 46 and 90): writing \<^verbatim>\<open>None\<close> over a name raises
  \<^verbatim>\<open>IntegrityError\<close>. When the commit raises the handler rolls back.
\<close>

definition written_character :: "character \<Rightarrow> character \<Rightarrow> exn + character" where
  "written_character old new =
     and_then (write_cell store_text (c_name old) (c_name new)) (\<lambda>name.
     and_then (write_cell store_text (c_height old) (c_height new)) (\<lambda>height.
     and_then (write_cell store_text (c_mass old) (c_mass new)) (\<lambda>mass.
     and_then (write_cell store_text (c_hair_color old) (c_hair_color new)) (\<lambda>hair_color.
     and_then (write_cell store_text (c_skin_color old) (c_skin_color new)) (\<lambda>skin_color.
     and_then (write_cell store_text (c_eye_color old) (c_eye_color new)) (\<lambda>eye_color.
     and_then (write_cell store_text (c_birth_year old) (c_birth_year new)) (\<lambda>birth_year.
     and_then (write_cell store_text (c_gender old) (c_gender new)) (\<lambda>gender.
     and_then (write_cell store_integer (c_homeworld_id old) (c_homeworld_id new)) (\<lambda>homeworld_id.
     and_then (write_cell store_text (c_description old) (c_description new)) (\<lambda>description.
     and_then (write_cell store_text (c_image_url old) (c_image_url new)) (\<lambda>image_url.
     Inr \<lparr>c_id = c_id new,
          c_name = name,
          c_height = height,
          c_mass = mass,
          c_hair_color = hair_color,
          c_skin_color = skin_color,
          c_eye_color = eye_color,
          c_birth_year = birth_year,
          c_gender = gender,
          c_homeworld_id = homeworld_id,
          c_description = description,
          c_image_url = image_url,
          c_created_at = c_created_at new\<rparr>)))))))))))"

definition written_planet :: "planet \<Rightarrow> planet \<Rightarrow> exn + planet" where
  "written_planet old new =
     and_then (write_cell store_text (p_name old) (p_name new)) (\<lambda>name.
     and_then (write_cell store_text (p_rotation_period old) (p_rotation_period new)) (\<lambda>rotation_period.
     and_then (write_cell store_text (p_orbital_period old) (p_orbital_period new)) (\<lambda>orbital_period.
     and_then (write_cell store_text (p_diameter old) (p_diameter new)) (\<lambda>diameter.
     and_then (write_cell store_text (p_climate old) (p_climate new)) (\<lambda>climate.
     and_then (write_cell store_text (p_gravity old) (p_gravity new)) (\<lambda>gravity.
     and_then (write_cell store_text (p_terrain old) (p_terrain new)) (\<lambda>terrain.
     and_then (write_cell store_text (p_surface_water old) (p_surface_water new)) (\<lambda>surface_water.
     and_then (write_cell store_text (p_population old) (p_population new)) (\<lambda>population.
     and_then (write_cell store_text (p_description old) (p_description new)) (\<lambda>description.
     and_then (write_cell store_text (p_image_url old) (p_image_url new)) (\<lambda>image_url.
     Inr \<lparr>p_id = p_id new,
          p_name = name,
          p_rotation_period = rotation_period,
          p_orbital_period = orbital_period,
          p_diameter = diameter,
          p_climate = climate,
          p_gravity = gravity,
          p_terrain = terrain,
          p_surface_water = surface_water,
          p_population = population,
          p_description = description,
          p_image_url = image_url,
          p_created_at = p_created_at new\<rparr>)))))))))))"

definition commit_character :: "store \<Rightarrow> character \<Rightarrow> character \<Rightarrow> exn + store \<times> character" where
  "commit_character st old new =
     and_then (written_character old new) (\<lambda>r.
       if c_name r = JNull \<and> c_name old \<noteq> JNull then Inl IntegrityError
       else Inr (st\<lparr>characters := map (\<lambda>x. if c_id x = c_id old then r else x) (characters st)\<rparr>,
                 r))"

definition commit_planet :: "store \<Rightarrow> planet \<Rightarrow> planet \<Rightarrow> exn + store \<times> planet" where
  "commit_planet st old new =
     and_then (written_planet old new) (\<lambda>r.
       if p_name r = JNull \<and> p_name old \<noteq> JNull then Inl IntegrityError
       else Inr (st\<lparr>planets := map (\<lambda>x. if p_id x = p_id old then r else x) (planets st)\<rparr>,
                 r))"

definition update_person :: "store \<Rightarrow> int \<Rightarrow> json \<Rightarrow> store \<times> response" where
  "update_person st people_id body =
     (case query_get_character st people_id of
        Inl e \<Rightarrow> (st, Error_of e, 500)
      | Inr None \<Rightarrow> (st, error_json ''Character not found'', 404)
      | Inr (Some character) \<Rightarrow>
          if \<not> truthy body then (st, error_json ''Request body is required'', 400)
          else (case and_then (apply_character_body body character)
                            (commit_character st character) of
                  Inl e \<Rightarrow> (st, Error_of e, 500)
                | Inr r \<Rightarrow> (fst r, Json (serialize_character (fst r) (snd r)), 200)))"

definition update_planet :: "store \<Rightarrow> int \<Rightarrow> json \<Rightarrow> store \<times> response" where
  "update_planet st planet_id body =
     (case query_get_planet st planet_id of
        Inl e \<Rightarrow> (st, Error_of e, 500)
      | Inr None \<Rightarrow> (st, error_json ''Planet not found'', 404)
      | Inr (Some planet) \<Rightarrow>
          if \<not> truthy body then (st, error_json ''Request body is required'', 400)
          else (case and_then (apply_planet_body body planet) (commit_planet st planet) of
                  Inl e \<Rightarrow> (st, Error_of e, 500)
                | Inr r \<Rightarrow> (fst r, Json (serialize_planet (snd r)), 200)))"

subsection \<open>Delete\<close>

text \<open>
  \<^verbatim>\<open>db.session.delete(row)\<close> and \<^verbatim>\<open>commit()\<close>. The relationships
  \<^verbatim>\<open>Character.favorite_by_users\<close> and \<^verbatim>\<open>Planet.favorite_by_users\<close> (models.py, lines 61
  and 104) are declared without a delete cascade, so the session detaches the favorite
  rows of the deleted row by writing \<^verbatim>\<open>None\<close> into their foreign key; that column is
  \<^verbatim>\<open>nullable=False\<close> (lines 134 and 160), the write raises \<^verbatim>\<open>IntegrityError\<close> and
  nothing is deleted. The characters of a deleted planet (the backref
  \<^verbatim>\<open>native_characters\<close>, line 60) are detached the same way; their \<^verbatim>\<open>homeworld_id\<close>
  may be null.
\<close>

definition session_delete_character :: "store \<Rightarrow> character \<Rightarrow> exn + store" where
  "session_delete_character st c =
     (if find (\<lambda>f. fc_character_id f = c_id c) (favorite_characters st) \<noteq> None
      then Inl IntegrityError
      else Inr (st\<lparr>characters := filter (\<lambda>r. c_id r \<noteq> c_id c) (characters st)\<rparr>))"

definition session_delete_planet :: "store \<Rightarrow> planet \<Rightarrow> exn + store" where
  "session_delete_planet st p =
     (if find (\<lambda>f. fp_planet_id f = p_id p) (favorite_planets st) \<noteq> None
      then Inl IntegrityError
      else Inr (st\<lparr>planets := filter (\<lambda>r. p_id r \<noteq> p_id p) (planets st),
                   characters := map (\<lambda>c. if c_homeworld_id c = JInt (p_id p)
                                            then c\<lparr>c_homeworld_id := JNull\<rparr> else c)
                                     (characters st)\<rparr>))"

text \<open>
  The message is an f-string over \<^verbatim>\<open>character.name\<close>; \<open>py_str\<close> is Python's \<^verbatim>\<open>str\<close>
  on the stored value, which is the text itself for a name that is a string (as every
  name written through the handlers is).
\<close>

definition delete_person :: "(json \<Rightarrow> string) \<Rightarrow> store \<Rightarrow> int \<Rightarrow> store \<times> response" where
  "delete_person py_str st people_id =
     (case query_get_character st people_id of
        Inl e \<Rightarrow> (st, Error_of e, 500)
      | Inr None \<Rightarrow> (st, error_json ''Character not found'', 404)
      | Inr (Some character) \<Rightarrow>
          (case session_delete_character st character of
             Inl e \<Rightarrow> (st, Error_of e, 500)
           | Inr st' \<Rightarrow>
               (st', Json (JObj [(''message'', JStr (''Character '' @ py_str (c_name character)
                                                      @ '' deleted successfully''))]), 200)))"

definition delete_planet :: "(json \<Rightarrow> string) \<Rightarrow> store \<Rightarrow> int \<Rightarrow> store \<times> response" where
  "delete_planet py_str st planet_id =
     (case query_get_planet st planet_id of
        Inl e \<Rightarrow> (st, Error_of e, 500)
      | Inr None \<Rightarrow> (st, error_json ''Planet not found'', 404)
      | Inr (Some planet) \<Rightarrow>
          (case session_delete_planet st planet of
             Inl e \<Rightarrow> (st, Error_of e, 500)
           | Inr st' \<Rightarrow>
               (st', Json (JObj [(''message'', JStr (''Planet '' @ py_str (p_name planet)
                                                      @ '' deleted successfully''))]), 200)))"

subsection \<open>Favorites\<close>

text \<open>\<^verbatim>\<open>current_user_id = 1\<close>, the constant each favorite handler starts with.\<close>

definition current_user_id :: int where
  "current_user_id = 1"

text \<open>
  \<^verbatim>\<open>FavoritePlanet(user_id=..., planet_id=...)\<close> and \<^verbatim>\<open>FavoriteCharacter(...)\<close>, with the
  key and \<^verbatim>\<open>created_at\<close> that the insertion fills in.
\<close>

definition new_favorite_planet :: "store \<Rightarrow> datetime \<Rightarrow> int \<Rightarrow> int \<Rightarrow> favorite_planet" where
  "new_favorite_planet st now uid pid =
     \<lparr>fp_id = next_id (map fp_id (favorite_planets st)), fp_user_id = uid,
      fp_planet_id = pid, fp_created_at = Some now\<rparr>"

definition new_favorite_character :: "store \<Rightarrow> datetime \<Rightarrow> int \<Rightarrow> int \<Rightarrow> favorite_character" where
  "new_favorite_character st now uid cid =
     \<lparr>fc_id = next_id (map fc_id (favorite_characters st)), fc_user_id = uid,
      fc_character_id = cid, fc_created_at = Some now\<rparr>"

definition add_favorite_planet :: "store \<Rightarrow> datetime \<Rightarrow> int \<Rightarrow> store \<times> response" where
  "add_favorite_planet st now planet_id =
     (case get_user st current_user_id of
        None \<Rightarrow> (st, error_json ''User not found'', 404)
      | Some user \<Rightarrow>
          (case query_get_planet st planet_id of
             Inl e \<Rightarrow> (st, Error_of e, 500)
           | Inr None \<Rightarrow> (st, error_json ''Planet not found'', 404)
           | Inr (Some planet) \<Rightarrow>
               if favorite_planet_by st current_user_id planet_id \<noteq> None
               then (st, error_json ''Planet is already in favorites'', 400)
               else
                 (add_favorite_planet_row st (new_favorite_planet st now current_user_id planet_id),
                  Json (serialize_favorite_planet
                          (add_favorite_planet_row st
                             (new_favorite_planet st now current_user_id planet_id))
                          (new_favorite_planet st now current_user_id planet_id)),
                  201)))"

definition add_favorite_people :: "store \<Rightarrow> datetime \<Rightarrow> int \<Rightarrow> store \<times> response" where
  "add_favorite_people st now people_id =
     (case get_user st current_user_id of
        None \<Rightarrow> (st, error_json ''User not found'', 404)
      | Some user \<Rightarrow>
          (case query_get_character st people_id of
             Inl e \<Rightarrow> (st, Error_of e, 500)
           | Inr None \<Rightarrow> (st, error_json ''Character not found'', 404)
           | Inr (Some character) \<Rightarrow>
               if favorite_character_by st current_user_id people_id \<noteq> None
               then (st, error_json ''Character is already in favorites'', 400)
               else
                 (add_favorite_character_row st
                    (new_favorite_character st now current_user_id people_id),
                  Json (serialize_favorite_character
                          (add_favorite_character_row st
                             (new_favorite_character st now current_user_id people_id))
                          (new_favorite_character st now current_user_id people_id)),
                  201)))"

subsection \<open>Deleting a user\<close>

text \<open>
  Modelled from the spec: the deletion of a User. No handler of app.py deletes a user
  (the admin module that app.py imports is not among the sources); the spec says
  "deleting a User cascades deletion of all its favorites", which is what the
  declarations \<^verbatim>\<open>cascade='all, delete-orphan'\<close> of \<^verbatim>\<open>User.favorite_characters\<close> and
  \<^verbatim>\<open>User.favorite_planets\<close> (models.py, lines 22 and 23) ask of the session: the rows
  of the two collections, those whose \<^verbatim>\<open>user_id\<close> is the user's key, are deleted with
  the user.
\<close>

definition delete_user :: "store \<Rightarrow> int \<Rightarrow> store" where
  "delete_user st uid =
     (case get_user st uid of
        None \<Rightarrow> st
      | Some u \<Rightarrow>
          st\<lparr>users := filter (\<lambda>r. u_id r \<noteq> u_id u) (users st),
             favorite_characters := filter (\<lambda>f. fc_user_id f \<noteq> u_id u) (favorite_characters st),
             favorite_planets := filter (\<lambda>f. fp_user_id f \<noteq> u_id u) (favorite_planets st)\<rparr>)"

section \<open>The spec's words\<close>

text \<open>
  "Only fields present in the request body are overwritten; absent fields retain prior
  value": the value of a field after an update with the object \<open>kvs\<close>.
\<close>

definition supplied :: "(string \<times> json) list \<Rightarrow> string \<Rightarrow> json \<Rightarrow> json" where
  "supplied kvs k old = (case map_of kvs k of None \<Rightarrow> old | Some v \<Rightarrow> v)"

definition spec_updated_character :: "(string \<times> json) list \<Rightarrow> character \<Rightarrow> character" where
  "spec_updated_character kvs r = r
     \<lparr>c_name := supplied kvs ''name'' (c_name r),
      c_height := supplied kvs ''height'' (c_height r),
      c_mass := supplied kvs ''mass'' (c_mass r),
      c_hair_color := supplied kvs ''hair_color'' (c_hair_color r),
      c_skin_color := supplied kvs ''skin_color'' (c_skin_color r),
      c_eye_color := supplied kvs ''eye_color'' (c_eye_color r),
      c_birth_year := supplied kvs ''birth_year'' (c_birth_year r),
      c_gender := supplied kvs ''gender'' (c_gender r),
      c_homeworld_id := supplied kvs ''homeworld_id'' (c_homeworld_id r),
      c_description := supplied kvs ''description'' (c_description r),
      c_image_url := supplied kvs ''image_url'' (c_image_url r)\<rparr>"

definition spec_updated_planet :: "(string \<times> json) list \<Rightarrow> planet \<Rightarrow> planet" where
  "spec_updated_planet kvs r = r
     \<lparr>p_name := supplied kvs ''name'' (p_name r),
      p_rotation_period := supplied kvs ''rotation_period'' (p_rotation_period r),
      p_orbital_period := supplied kvs ''orbital_period'' (p_orbital_period r),
      p_diameter := supplied kvs ''diameter'' (p_diameter r),
      p_climate := supplied kvs ''climate'' (p_climate r),
      p_gravity := supplied kvs ''gravity'' (p_gravity r),
      p_terrain := supplied kvs ''terrain'' (p_terrain r),
      p_surface_water := supplied kvs ''surface_water'' (p_surface_water r),
      p_population := supplied kvs ''population'' (p_population r),
      p_description := supplied kvs ''description'' (p_description r),
      p_image_url := supplied kvs ''image_url'' (p_image_url r)\<rparr>"

text \<open>
  "All other fields are optional and pass through as given", "server-generated id and
  created_at": the row a create request with the object \<open>kvs\<close> stands for.
\<close>

definition spec_new_character :: "(string \<times> json) list \<Rightarrow> int \<Rightarrow> datetime \<Rightarrow> character" where
  "spec_new_character kvs i now =
     \<lparr>c_id = i,
      c_name = dict_get kvs ''name'',
      c_height = dict_get kvs ''height'',
      c_mass = dict_get kvs ''mass'',
      c_hair_color = dict_get kvs ''hair_color'',
      c_skin_color = dict_get kvs ''skin_color'',
      c_eye_color = dict_get kvs ''eye_color'',
      c_birth_year = dict_get kvs ''birth_year'',
      c_gender = dict_get kvs ''gender'',
      c_homeworld_id = dict_get kvs ''homeworld_id'',
      c_description = dict_get kvs ''description'',
      c_image_url = dict_get kvs ''image_url'',
      c_created_at = Some now\<rparr>"

definition spec_new_planet :: "(string \<times> json) list \<Rightarrow> int \<Rightarrow> datetime \<Rightarrow> planet" where
  "spec_new_planet kvs i now =
     \<lparr>p_id = i,
      p_name = dict_get kvs ''name'',
      p_rotation_period = dict_get kvs ''rotation_period'',
      p_orbital_period = dict_get kvs ''orbital_period'',
      p_diameter = dict_get kvs ''diameter'',
      p_climate = dict_get kvs ''climate'',
      p_gravity = dict_get kvs ''gravity'',
      p_terrain = dict_get kvs ''terrain'',
      p_surface_water = dict_get kvs ''surface_water'',
      p_population = dict_get kvs ''population'',
      p_description = dict_get kvs ''description'',
      p_image_url = dict_get kvs ''image_url'',
      p_created_at = Some now\<rparr>"

text \<open>
  The values of a body that the store keeps as they are, so that "the supplied value"
  is also the value read back: null or a string for a String or Text column, null or an
  integer of 64 bits for \<^verbatim>\<open>homeworld_id\<close>. A key that is absent counts as null.
\<close>

fun is_text :: "json \<Rightarrow> bool" where
  "is_text JNull = True"
| "is_text (JStr s) = True"
| "is_text _ = False"

fun is_key :: "json \<Rightarrow> bool" where
  "is_key JNull = True"
| "is_key (JInt n) = sqlite_int n"
| "is_key _ = False"

definition storable_character :: "(string \<times> json) list \<Rightarrow> bool" where
  "storable_character kvs \<longleftrightarrow>
     is_text (dict_get kvs ''name'')
     \<and> is_text (dict_get kvs ''height'')
     \<and> is_text (dict_get kvs ''mass'')
     \<and> is_text (dict_get kvs ''hair_color'')
     \<and> is_text (dict_get kvs ''skin_color'')
     \<and> is_text (dict_get kvs ''eye_color'')
     \<and> is_text (dict_get kvs ''birth_year'')
     \<and> is_text (dict_get kvs ''gender'')
     \<and> is_key (dict_get kvs ''homeworld_id'')
     \<and> is_text (dict_get kvs ''description'')
     \<and> is_text (dict_get kvs ''image_url'')"

definition storable_planet :: "(string \<times> json) list \<Rightarrow> bool" where
  "storable_planet kvs \<longleftrightarrow>
     is_text (dict_get kvs ''name'')
     \<and> is_text (dict_get kvs ''rotation_period'')
     \<and> is_text (dict_get kvs ''orbital_period'')
     \<and> is_text (dict_get kvs ''diameter'')
     \<and> is_text (dict_get kvs ''climate'')
     \<and> is_text (dict_get kvs ''gravity'')
     \<and> is_text (dict_get kvs ''terrain'')
     \<and> is_text (dict_get kvs ''surface_water'')
     \<and> is_text (dict_get kvs ''population'')
     \<and> is_text (dict_get kvs ''description'')
     \<and> is_text (dict_get kvs ''image_url'')"

section \<open>Example data\<close>

definition a_time :: datetime where
  "a_time = Datetime ''2024-05-04T10:00:00''"

definition later_time :: datetime where
  "later_time = Datetime ''2024-05-04T10:00:05''"

definition user1 :: user where
  "user1 = \<lparr>u_id = 1, u_username = ''rey'', u_email = ''rey@example.com'',
            u_password_hash = ''x'', u_first_name = ''Rey'', u_last_name = ''Skywalker'',
            u_created_at = Some a_time, u_is_active = True\<rparr>"

definition user2 :: user where
  "user2 = \<lparr>u_id = 2, u_username = ''finn'', u_email = ''finn@example.com'',
            u_password_hash = ''y'', u_first_name = ''Finn'', u_last_name = ''Storm'',
            u_created_at = Some a_time, u_is_active = True\<rparr>"

definition tatooine :: planet where
  "tatooine = \<lparr>p_id = 1, p_name = JStr ''Tatooine'', p_rotation_period = JStr ''23'',
               p_orbital_period = JStr ''304'', p_diameter = JStr ''10465'',
               p_climate = JStr ''arid'', p_gravity = JStr ''1 standard'',
               p_terrain = JStr ''desert'', p_surface_water = JStr ''1'',
               p_population = JStr ''200000'', p_description = JNull, p_image_url = JNull,
               p_created_at = Some a_time\<rparr>"

definition luke :: character where
  "luke = \<lparr>c_id = 1, c_name = JStr ''Luke Skywalker'', c_height = JStr ''172'',
           c_mass = JStr ''77'', c_hair_color = JStr ''blond'', c_skin_color = JStr ''fair'',
           c_eye_color = JStr ''blue'', c_birth_year = JStr ''19BBY'', c_gender = JStr ''male'',
           c_homeworld_id = JInt 1, c_description = JNull, c_image_url = JNull,
           c_created_at = Some a_time\<rparr>"

definition leia :: character where
  "leia = \<lparr>c_id = 2, c_name = JStr ''Leia Organa'', c_height = JStr ''150'',
           c_mass = JStr ''49'', c_hair_color = JStr ''brown'', c_skin_color = JStr ''light'',
           c_eye_color = JStr ''brown'', c_birth_year = JStr ''19BBY'', c_gender = JStr ''female'',
           c_homeworld_id = JNull, c_description = JNull, c_image_url = JNull,
           c_created_at = Some a_time\<rparr>"

definition empty_store :: store where
  "empty_store = \<lparr>users = [], characters = [], planets = [],
                  favorite_characters = [], favorite_planets = []\<rparr>"

definition demo_store :: store where
  "demo_store = \<lparr>users = [user1, user2], characters = [luke, leia], planets = [tatooine],
                 favorite_characters = [], favorite_planets = []\<rparr>"

text \<open>User 1 has Luke and Tatooine as favorites, user 2 has Luke.\<close>

definition favorites_store :: store where
  "favorites_store = demo_store
     \<lparr>favorite_characters :=
        [\<lparr>fc_id = 1, fc_user_id = 1, fc_character_id = 1, fc_created_at = Some a_time\<rparr>,
         \<lparr>fc_id = 2, fc_user_id = 2, fc_character_id = 1, fc_created_at = Some a_time\<rparr>],
      favorite_planets :=
        [\<lparr>fp_id = 1, fp_user_id = 1, fp_planet_id = 1, fp_created_at = Some a_time\<rparr>]\<rparr>"

text \<open>The store after \<^verbatim>\<open>PUT /people/2\<close> with the body \<^verbatim>\<open>{"name": ""}\<close>.\<close>

definition blank_name_body :: json where
  "blank_name_body = JObj [(''name'', JStr [])]"

definition blank_name_store :: store where
  "blank_name_store = store_after (update_person demo_store 2 blank_name_body)"

text \<open>
  Python's \<^verbatim>\<open>str\<close> on a string is the string itself; the names of the examples are
  strings, and the value given here to anything else is not used.
\<close>

fun str_of_string :: "json \<Rightarrow> string" where
  "str_of_string (JStr s) = s"
| "str_of_string _ = []"

section \<open>Properties\<close>

subsection \<open>Auxiliary facts\<close>

lemma find_Some_pred: "find P xs = Some x \<Longrightarrow> P x \<and> x \<in> set xs"
  by (induction xs) (auto split: if_splits)

lemma find_None_filter: "find P xs = None \<longleftrightarrow> filter P xs = []"
  by (induction xs) auto

lemma find_append_new: "find P xs = None \<Longrightarrow> P x \<Longrightarrow> find P (xs @ [x]) = Some x"
  by (induction xs) (auto split: if_splits)

lemma sqlite_int_small: "sqlite_int 1" "sqlite_int 2" "sqlite_int 3" "sqlite_int 5"
  by (simp_all add: sqlite_int_def)

lemma sqlite_int_huge: "\<not> sqlite_int 99999999999999999999"
  by (simp add: sqlite_int_def)

lemma get_user_id: "get_user st i = Some u \<Longrightarrow> u_id u = i"
  unfolding get_user_def by (auto dest: find_Some_pred)

lemma get_character_id: "get_character st i = Some c \<Longrightarrow> c_id c = i"
  unfolding get_character_def by (auto dest: find_Some_pred split: if_splits)

lemma get_planet_id: "get_planet st i = Some p \<Longrightarrow> p_id p = i"
  unfolding get_planet_def by (auto dest: find_Some_pred split: if_splits)

lemma get_character_mem: "get_character st i = Some c \<Longrightarrow> c \<in> set (characters st)"
  unfolding get_character_def by (auto dest: find_Some_pred split: if_splits)

lemma get_planet_mem: "get_planet st i = Some p \<Longrightarrow> p \<in> set (planets st)"
  unfolding get_planet_def by (auto dest: find_Some_pred split: if_splits)

text \<open>A row that is found has a key that the query can bind.\<close>

lemma query_get_character_found:
  "get_character st i \<noteq> None \<Longrightarrow> query_get_character st i = Inr (get_character st i)"
  by (auto simp: query_get_character_def get_character_def split: if_splits)

lemma query_get_planet_found:
  "get_planet st i \<noteq> None \<Longrightarrow> query_get_planet st i = Inr (get_planet st i)"
  by (auto simp: query_get_planet_def get_planet_def split: if_splits)

lemma query_get_character_Some:
  "get_character st i = Some c \<Longrightarrow> query_get_character st i = Inr (Some c)"
  using query_get_character_found [of st i] by simp

lemma query_get_planet_Some:
  "get_planet st i = Some p \<Longrightarrow> query_get_planet st i = Inr (Some p)"
  using query_get_planet_found [of st i] by simp

lemma query_get_in_range:
  "sqlite_int i \<Longrightarrow> query_get_character st i = Inr (get_character st i)"
  "sqlite_int i \<Longrightarrow> query_get_planet st i = Inr (get_planet st i)"
  by (simp_all add: query_get_character_def query_get_planet_def)

lemma query_get_out_of_range:
  "\<not> sqlite_int i \<Longrightarrow> query_get_character st i = Inl OverflowError"
  "\<not> sqlite_int i \<Longrightarrow> query_get_planet st i = Inl OverflowError"
  by (simp_all add: query_get_character_def query_get_planet_def)

lemma demo_rows:
  "users demo_store = [user1, user2]" "characters demo_store = [luke, leia]"
  "planets demo_store = [tatooine]" "favorite_characters demo_store = []"
  "favorite_planets demo_store = []"
  by (simp_all add: demo_store_def)

lemma demo_ids: "u_id user1 = 1" "u_id user2 = 2" "c_id luke = 1" "c_id leia = 2" "p_id tatooine = 1"
  by (simp_all add: user1_def user2_def luke_def leia_def tatooine_def)

lemma demo_get_user: "get_user demo_store 1 = Some user1"
  by (simp add: get_user_def demo_store_def user1_def)

lemma demo_get_luke: "get_character demo_store 1 = Some luke"
  by (simp add: get_character_def sqlite_int_small demo_rows demo_ids)

lemma demo_get_leia: "get_character demo_store 2 = Some leia"
  by (simp add: get_character_def sqlite_int_small demo_rows demo_ids)

lemma demo_get_tatooine: "get_planet demo_store 1 = Some tatooine"
  by (simp add: get_planet_def sqlite_int_small demo_rows demo_ids)

lemma demo_no_planet5: "get_planet demo_store 5 = None"
  by (simp add: get_planet_def demo_rows demo_ids)

lemma demo_no_character5: "get_character demo_store 5 = None"
  by (simp add: get_character_def demo_rows demo_ids)

lemma fold_max_ge: "(a::int) \<le> fold max ids a"
  by (induction ids arbitrary: a) (auto intro: order_trans [OF max.cobounded2])

lemma fold_max_mem: "(x::int) \<in> set ids \<Longrightarrow> x \<le> fold max ids a"
proof (induction ids arbitrary: a)
  case Nil
  then show ?case by simp
next
  case (Cons y ys)
  show ?case
  proof (cases "x = y")
    case True
    have "y \<le> max y a" by simp
    also have "\<dots> \<le> fold max ys (max y a)" by (rule fold_max_ge)
    finally show ?thesis using True by simp
  next
    case False
    with Cons show ?thesis by simp
  qed
qed

lemma next_id_fresh: "next_id ids \<notin> set ids"
proof (cases ids)
  case Nil
  then show ?thesis by simp
next
  case (Cons i js)
  show ?thesis
  proof
    assume "next_id ids \<in> set ids"
    then have "next_id ids = i \<or> next_id ids \<in> set js" using Cons by simp
    moreover have "i \<le> fold max js i" by (rule fold_max_ge)
    moreover have "next_id ids \<in> set js \<Longrightarrow> next_id ids \<le> fold max js i"
      by (rule fold_max_mem)
    ultimately show False using Cons by (auto simp: next_id_def)
  qed
qed

lemma truthy_not_null: "truthy v \<Longrightarrow> v \<noteq> JNull"
  by auto

text \<open>A value that the store keeps as it is.\<close>

lemma store_text_kept: "is_text v \<Longrightarrow> store_text v = Inr v"
  by (cases v) (simp_all add: store_text_def)

lemma store_integer_kept: "is_key v \<Longrightarrow> store_integer v = Inr v"
  by (cases v) (simp_all add: store_integer_def)

lemma write_text_supplied:
  "is_text (dict_get kvs k) \<Longrightarrow>
     write_cell store_text old (supplied kvs k old) = Inr (supplied kvs k old)"
  by (auto simp: write_cell_def supplied_def dict_get_def store_text_kept split: option.splits)

lemma write_integer_supplied:
  "is_key (dict_get kvs k) \<Longrightarrow>
     write_cell store_integer old (supplied kvs k old) = Inr (supplied kvs k old)"
  by (auto simp: write_cell_def supplied_def dict_get_def store_integer_kept split: option.splits)

subsection \<open>Serialization\<close>

text \<open>
  C8. The serialization of a Character holds under the key \<^verbatim>\<open>homeworld\<close> the whole
  serialization of the Planet that \<^verbatim>\<open>homeworld_id\<close> refers to when that Planet is in the
  store, and null when the Character has no homeworld (\<^verbatim>\<open>homeworld_id\<close> is null).
\<close>

theorem serialize_character_homeworld:
  "(c_homeworld_id c = JInt i \<and> get_planet st i = Some p \<longrightarrow>
      py_getitem (serialize_character st c) ''homeworld'' = Inr (serialize_planet p))
 \<and> (c_homeworld_id c = JNull \<longrightarrow>
      py_getitem (serialize_character st c) ''homeworld'' = Inr JNull)"
  by (simp add: serialize_character_def homeworld_def)

theorem serialize_character_homeworld_witness:
  "c_homeworld_id luke = JInt 1 \<and> get_planet demo_store 1 = Some tatooine
   \<and> py_getitem (serialize_character demo_store luke) ''homeworld'' = Inr (serialize_planet tatooine)
   \<and> c_homeworld_id leia = JNull
   \<and> py_getitem (serialize_character demo_store leia) ''homeworld'' = Inr JNull"
proof -
  have l: "c_homeworld_id luke = JInt 1" by (simp add: luke_def)
  have o: "c_homeworld_id leia = JNull" by (simp add: leia_def)
  show ?thesis
    using serialize_character_homeworld [of luke 1 demo_store tatooine]
      serialize_character_homeworld [of leia 1 demo_store tatooine]
      l o demo_get_tatooine
    by simp
qed

subsection \<open>Update\<close>

text \<open>
  C10. A PUT on an existing Character or Planet whose body is the empty JSON object
  answers 400 with \<^verbatim>\<open>{"error": "Request body is required"}\<close> and leaves the store, and so
  the entity, as it was: the same answer as for a missing body.
\<close>

theorem update_empty_object:
  "(get_character st i \<noteq> None \<longrightarrow>
      update_person st i (JObj []) = (st, error_json ''Request body is required'', 400)
    \<and> update_person st i (JObj []) = update_person st i JNull)
 \<and> (get_planet st j \<noteq> None \<longrightarrow>
      update_planet st j (JObj []) = (st, error_json ''Request body is required'', 400)
    \<and> update_planet st j (JObj []) = update_planet st j JNull)"
  by (auto simp: update_person_def update_planet_def query_get_character_found
      query_get_planet_found)

theorem update_empty_object_witness:
  "get_character demo_store 1 \<noteq> None \<and> get_planet demo_store 1 \<noteq> None
   \<and> update_person demo_store 1 (JObj [])
       = (demo_store, error_json ''Request body is required'', 400)
   \<and> update_planet demo_store 1 (JObj [])
       = (demo_store, error_json ''Request body is required'', 400)"
  using update_empty_object [of demo_store 1 1] demo_get_luke demo_get_tatooine
  by simp

lemma set_if_present_character:
  "set_if_present (JObj kvs) ''name'' (\<lambda>v. c_name_update (\<lambda>_. v)) r
     = Inr (r\<lparr>c_name := supplied kvs ''name'' (c_name r)\<rparr>)"
  "set_if_present (JObj kvs) ''height'' (\<lambda>v. c_height_update (\<lambda>_. v)) r
     = Inr (r\<lparr>c_height := supplied kvs ''height'' (c_height r)\<rparr>)"
  "set_if_present (JObj kvs) ''mass'' (\<lambda>v. c_mass_update (\<lambda>_. v)) r
     = Inr (r\<lparr>c_mass := supplied kvs ''mass'' (c_mass r)\<rparr>)"
  "set_if_present (JObj kvs) ''hair_color'' (\<lambda>v. c_hair_color_update (\<lambda>_. v)) r
     = Inr (r\<lparr>c_hair_color := supplied kvs ''hair_color'' (c_hair_color r)\<rparr>)"
  "set_if_present (JObj kvs) ''skin_color'' (\<lambda>v. c_skin_color_update (\<lambda>_. v)) r
     = Inr (r\<lparr>c_skin_color := supplied kvs ''skin_color'' (c_skin_color r)\<rparr>)"
  "set_if_present (JObj kvs) ''eye_color'' (\<lambda>v. c_eye_color_update (\<lambda>_. v)) r
     = Inr (r\<lparr>c_eye_color := supplied kvs ''eye_color'' (c_eye_color r)\<rparr>)"
  "set_if_present (JObj kvs) ''birth_year'' (\<lambda>v. c_birth_year_update (\<lambda>_. v)) r
     = Inr (r\<lparr>c_birth_year := supplied kvs ''birth_year'' (c_birth_year r)\<rparr>)"
  "set_if_present (JObj kvs) ''gender'' (\<lambda>v. c_gender_update (\<lambda>_. v)) r
     = Inr (r\<lparr>c_gender := supplied kvs ''gender'' (c_gender r)\<rparr>)"
  "set_if_present (JObj kvs) ''homeworld_id'' (\<lambda>v. c_homeworld_id_update (\<lambda>_. v)) r
     = Inr (r\<lparr>c_homeworld_id := supplied kvs ''homeworld_id'' (c_homeworld_id r)\<rparr>)"
  "set_if_present (JObj kvs) ''description'' (\<lambda>v. c_description_update (\<lambda>_. v)) r
     = Inr (r\<lparr>c_description := supplied kvs ''description'' (c_description r)\<rparr>)"
  "set_if_present (JObj kvs) ''image_url'' (\<lambda>v. c_image_url_update (\<lambda>_. v)) r
     = Inr (r\<lparr>c_image_url := supplied kvs ''image_url'' (c_image_url r)\<rparr>)"
  by (simp_all add: set_if_present_def supplied_def split: option.splits)

lemma set_if_present_planet:
  "set_if_present (JObj kvs) ''name'' (\<lambda>v. p_name_update (\<lambda>_. v)) r
     = Inr (r\<lparr>p_name := supplied kvs ''name'' (p_name r)\<rparr>)"
  "set_if_present (JObj kvs) ''rotation_period'' (\<lambda>v. p_rotation_period_update (\<lambda>_. v)) r
     = Inr (r\<lparr>p_rotation_period := supplied kvs ''rotation_period'' (p_rotation_period r)\<rparr>)"
  "set_if_present (JObj kvs) ''orbital_period'' (\<lambda>v. p_orbital_period_update (\<lambda>_. v)) r
     = Inr (r\<lparr>p_orbital_period := supplied kvs ''orbital_period'' (p_orbital_period r)\<rparr>)"
  "set_if_present (JObj kvs) ''diameter'' (\<lambda>v. p_diameter_update (\<lambda>_. v)) r
     = Inr (r\<lparr>p_diameter := supplied kvs ''diameter'' (p_diameter r)\<rparr>)"
  "set_if_present (JObj kvs) ''climate'' (\<lambda>v. p_climate_update (\<lambda>_. v)) r
     = Inr (r\<lparr>p_climate := supplied kvs ''climate'' (p_climate r)\<rparr>)"
  "set_if_present (JObj kvs) ''gravity'' (\<lambda>v. p_gravity_update (\<lambda>_. v)) r
     = Inr (r\<lparr>p_gravity := supplied kvs ''gravity'' (p_gravity r)\<rparr>)"
  "set_if_present (JObj kvs) ''terrain'' (\<lambda>v. p_terrain_update (\<lambda>_. v)) r
     = Inr (r\<lparr>p_terrain := supplied kvs ''terrain'' (p_terrain r)\<rparr>)"
  "set_if_present (JObj kvs) ''surface_water'' (\<lambda>v. p_surface_water_update (\<lambda>_. v)) r
     = Inr (r\<lparr>p_surface_water := supplied kvs ''surface_water'' (p_surface_water r)\<rparr>)"
  "set_if_present (JObj kvs) ''population'' (\<lambda>v. p_population_update (\<lambda>_. v)) r
     = Inr (r\<lparr>p_population := supplied kvs ''population'' (p_population r)\<rparr>)"
  "set_if_present (JObj kvs) ''description'' (\<lambda>v. p_description_update (\<lambda>_. v)) r
     = Inr (r\<lparr>p_description := supplied kvs ''description'' (p_description r)\<rparr>)"
  "set_if_present (JObj kvs) ''image_url'' (\<lambda>v. p_image_url_update (\<lambda>_. v)) r
     = Inr (r\<lparr>p_image_url := supplied kvs ''image_url'' (p_image_url r)\<rparr>)"
  by (simp_all add: set_if_present_def supplied_def split: option.splits)

lemma apply_character_body_object:
  "apply_character_body (JObj kvs) c = Inr (spec_updated_character kvs c)"
  by (simp add: apply_character_body_def set_if_present_character spec_updated_character_def)

lemma apply_planet_body_object:
  "apply_planet_body (JObj kvs) p = Inr (spec_updated_planet kvs p)"
  by (simp add: apply_planet_body_def set_if_present_planet spec_updated_planet_def)

lemma supplied_name_not_null:
  "map_of kvs ''name'' \<noteq> Some JNull \<Longrightarrow> \<not> (supplied kvs ''name'' old = JNull \<and> old \<noteq> JNull)"
  by (auto simp: supplied_def split: option.splits)

lemma written_character_storable:
  assumes "storable_character kvs"
  shows "written_character c (spec_updated_character kvs c) = Inr (spec_updated_character kvs c)"
  using assms
  by (cases c)
    (simp add: storable_character_def written_character_def spec_updated_character_def
      write_text_supplied write_integer_supplied)

lemma written_planet_storable:
  assumes "storable_planet kvs"
  shows "written_planet p (spec_updated_planet kvs p) = Inr (spec_updated_planet kvs p)"
  using assms
  by (cases p)
    (simp add: storable_planet_def written_planet_def spec_updated_planet_def
      write_text_supplied)

lemma update_person_object:
  assumes "get_character st i = Some c" and "kvs \<noteq> []"
    and "map_of kvs ''name'' \<noteq> Some JNull" and "storable_character kvs"
  shows "update_person st i (JObj kvs) =
     (st\<lparr>characters := map (\<lambda>r. if c_id r = i then spec_updated_character kvs c else r)
                            (characters st)\<rparr>,
      Json (serialize_character
        (st\<lparr>characters := map (\<lambda>r. if c_id r = i then spec_updated_character kvs c else r)
                               (characters st)\<rparr>)
        (spec_updated_character kvs c)), 200)"
proof -
  have n: "\<not> (c_name (spec_updated_character kvs c) = JNull \<and> c_name c \<noteq> JNull)"
    using supplied_name_not_null [OF assms(3), of "c_name c"]
    by (simp add: spec_updated_character_def)
  show ?thesis
    using assms(2) n get_character_id [OF assms(1)]
    by (simp add: update_person_def query_get_character_Some [OF assms(1)]
        apply_character_body_object commit_character_def
        written_character_storable [OF assms(4)])
qed

lemma update_planet_object:
  assumes "get_planet st i = Some p" and "kvs \<noteq> []"
    and "map_of kvs ''name'' \<noteq> Some JNull" and "storable_planet kvs"
  shows "update_planet st i (JObj kvs) =
     (st\<lparr>planets := map (\<lambda>r. if p_id r = i then spec_updated_planet kvs p else r)
                         (planets st)\<rparr>,
      Json (serialize_planet (spec_updated_planet kvs p)), 200)"
proof -
  have n: "\<not> (p_name (spec_updated_planet kvs p) = JNull \<and> p_name p \<noteq> JNull)"
    using supplied_name_not_null [OF assms(3), of "p_name p"]
    by (simp add: spec_updated_planet_def)
  show ?thesis
    using assms(2) n get_planet_id [OF assms(1)]
    by (simp add: update_planet_def query_get_planet_Some [OF assms(1)]
        apply_planet_body_object commit_planet_def
        written_planet_storable [OF assms(4)])
qed

lemma store_text_180: "store_text (JInt 180) = Inr (JStr ''180'')"
  by code_simp

text \<open>
  C3, as the code has it. For an existing Character (resp. Planet) and a body that is a
  non-empty JSON object whose values for the eleven data fields of the entity are
  storable as they are (null or a string, for \<^verbatim>\<open>homeworld_id\<close> null or an integer of
  64 bits) and that does not set \<^verbatim>\<open>name\<close> to null, the PUT answers 200 with the
  serialization of the updated row; in that row each of the eleven data fields whose key
  is in the body has the value supplied, and every other field has its value from
  before, as have the id and \<^verbatim>\<open>created_at\<close> whatever the body holds under those keys;
  the other rows of the table are untouched.
\<close>

theorem update_partial_object:
  "(get_character st i = Some c \<and> kvs \<noteq> [] \<and> map_of kvs ''name'' \<noteq> Some JNull
      \<and> storable_character kvs \<longrightarrow>
      update_person st i (JObj kvs) =
        (st\<lparr>characters := map (\<lambda>r. if c_id r = i then spec_updated_character kvs c else r)
                               (characters st)\<rparr>,
         Json (serialize_character
           (st\<lparr>characters := map (\<lambda>r. if c_id r = i then spec_updated_character kvs c else r)
                                  (characters st)\<rparr>)
           (spec_updated_character kvs c)), 200)
    \<and> c_id (spec_updated_character kvs c) = c_id c
    \<and> c_created_at (spec_updated_character kvs c) = c_created_at c)
 \<and> (get_planet st j = Some p \<and> kvs \<noteq> [] \<and> map_of kvs ''name'' \<noteq> Some JNull
      \<and> storable_planet kvs \<longrightarrow>
      update_planet st j (JObj kvs) =
        (st\<lparr>planets := map (\<lambda>r. if p_id r = j then spec_updated_planet kvs p else r)
                            (planets st)\<rparr>,
         Json (serialize_planet (spec_updated_planet kvs p)), 200)
    \<and> p_id (spec_updated_planet kvs p) = p_id p
    \<and> p_created_at (spec_updated_planet kvs p) = p_created_at p)
 \<and> (map_of kvs k = Some v \<longrightarrow> supplied kvs k old = v)
 \<and> (map_of kvs k = None \<longrightarrow> supplied kvs k old = old)"
  using update_person_object [of st i c kvs] update_planet_object [of st j p kvs]
  by (simp add: supplied_def spec_updated_character_def spec_updated_planet_def)

theorem update_partial_object_witness:
  "get_character demo_store 1 = Some luke \<and> get_planet demo_store 1 = Some tatooine
   \<and> storable_character [(''height'', JStr ''180''), (''id'', JInt 99)]
   \<and> storable_planet [(''climate'', JStr ''temperate'')]
   \<and> map_of [(''height'', JStr ''180''), (''id'', JInt 99)] ''name'' \<noteq> Some JNull
   \<and> map_of [(''climate'', JStr ''temperate'')] ''name'' \<noteq> Some JNull
   \<and> map_of [(''height'', JStr ''180''), (''id'', JInt 99)] ''height'' = Some (JStr ''180'')
   \<and> map_of [(''height'', JStr ''180''), (''id'', JInt 99)] ''mass'' = None
   \<and> supplied [(''height'', JStr ''180''), (''id'', JInt 99)] ''mass'' (c_mass luke) = c_mass luke
   \<and> update_person demo_store 1 (JObj [(''height'', JStr ''180''), (''id'', JInt 99)]) =
       (demo_store\<lparr>characters := [luke\<lparr>c_height := JStr ''180''\<rparr>, leia]\<rparr>,
        Json (serialize_character
          (demo_store\<lparr>characters := [luke\<lparr>c_height := JStr ''180''\<rparr>, leia]\<rparr>)
          (luke\<lparr>c_height := JStr ''180''\<rparr>)), 200)
   \<and> c_id (luke\<lparr>c_height := JStr ''180''\<rparr>) = 1
   \<and> update_planet demo_store 1 (JObj [(''climate'', JStr ''temperate'')]) =
       (demo_store\<lparr>planets := [tatooine\<lparr>p_climate := JStr ''temperate''\<rparr>]\<rparr>,
        Json (serialize_planet (tatooine\<lparr>p_climate := JStr ''temperate''\<rparr>)), 200)"
proof -
  let ?kc = "[(''height'', JStr ''180''), (''id'', JInt 99)]"
  let ?kp = "[(''climate'', JStr ''temperate'')]"
  have sc: "storable_character ?kc" "storable_planet ?kc"
    by (simp_all add: storable_character_def storable_planet_def dict_get_def)
  have sp: "storable_planet ?kp" "storable_character ?kp"
    by (simp_all add: storable_character_def storable_planet_def dict_get_def)
  have c: "spec_updated_character ?kc luke = luke\<lparr>c_height := JStr ''180''\<rparr>"
    by (simp add: spec_updated_character_def supplied_def)
  have p: "spec_updated_planet ?kp tatooine = tatooine\<lparr>p_climate := JStr ''temperate''\<rparr>"
    by (simp add: spec_updated_planet_def supplied_def)
  have rows: "map (\<lambda>r. if c_id r = 1 then spec_updated_character ?kc luke else r)
      (characters demo_store) = [luke\<lparr>c_height := JStr ''180''\<rparr>, leia]"
    "map (\<lambda>r. if p_id r = 1 then spec_updated_planet ?kp tatooine else r)
      (planets demo_store) = [tatooine\<lparr>p_climate := JStr ''temperate''\<rparr>]"
    by (simp_all add: c p demo_rows demo_ids)
  have i: "c_id (luke\<lparr>c_height := JStr ''180''\<rparr>) = 1" by (simp add: demo_ids)
  show ?thesis
    using update_partial_object [of demo_store 1 luke ?kc 1 tatooine "''height''" "JStr ''180''"]
      update_partial_object [of demo_store 1 luke ?kc 1 tatooine "''mass''" "JStr ''180''"
        "c_mass luke"]
      update_partial_object [of demo_store 1 luke ?kp 1 tatooine "''climate''"
        "JStr ''temperate''"]
      demo_get_luke demo_get_tatooine sc sp i
    by (simp add: c p rows)
qed

text \<open>
  C3 as stated fails on a body that is not a JSON object (the number 5 is not iterable),
  on an object that sets \<^verbatim>\<open>name\<close> to null (the column is not nullable) and on an object
  with a value that the store refuses (a list): the answer is 500 and nothing changes.
  A number given for a text field is not stored as supplied but as its decimal text,
  and the key \<^verbatim>\<open>id\<close> of a body sets nothing.
\<close>

theorem update_every_body_counterexample:
  "get_character demo_store 1 = Some luke \<and> truthy (JInt 5)
   \<and> update_person demo_store 1 (JInt 5) = (demo_store, Error_of TypeError, 500)
   \<and> truthy (JObj [(''name'', JNull)])
   \<and> update_person demo_store 1 (JObj [(''name'', JNull)])
        = (demo_store, Error_of IntegrityError, 500)
   \<and> update_person demo_store 1 (JObj [(''height'', JArr [JInt 1])])
        = (demo_store, Error_of InterfaceError, 500)
   \<and> update_person demo_store 1 (JObj [(''height'', JInt 180)])
        = update_person demo_store 1 (JObj [(''height'', JStr ''180'')])
   \<and> update_person demo_store 1 (JObj [(''id'', JInt 99)])
        = (demo_store, Json (serialize_character demo_store luke), 200)"
proof -
  have q: "query_get_character demo_store 1 = Inr (Some luke)"
    by (rule query_get_character_Some [OF demo_get_luke])
  have a: "apply_character_body (JInt 5) luke = Inl TypeError"
    by (simp add: apply_character_body_def set_if_present_def)
  have l: "c_name luke = JStr ''Luke Skywalker''" "c_height luke = JStr ''172''"
    by (simp_all add: luke_def)
  have n: "written_character luke (spec_updated_character [(''name'', JNull)] luke)
      = Inr (luke\<lparr>c_name := JNull\<rparr>)"
    by (cases luke)
      (simp add: written_character_def spec_updated_character_def supplied_def write_cell_def
        store_text_def luke_def)
  have h: "written_character luke (spec_updated_character [(''height'', JArr [JInt 1])] luke)
      = Inl InterfaceError"
    by (simp add: written_character_def spec_updated_character_def supplied_def write_cell_def
        store_text_def luke_def)
  have t: "written_character luke (spec_updated_character [(''height'', JInt 180)] luke)
      = Inr (luke\<lparr>c_height := JStr ''180''\<rparr>)"
    by (cases luke)
      (simp add: written_character_def spec_updated_character_def supplied_def write_cell_def
        store_text_180 luke_def)
  have s: "update_person demo_store 1 (JObj [(''height'', JStr ''180'')]) =
     (demo_store\<lparr>characters := map (\<lambda>r. if c_id r = 1
          then spec_updated_character [(''height'', JStr ''180'')] luke else r)
          (characters demo_store)\<rparr>,
      Json (serialize_character
        (demo_store\<lparr>characters := map (\<lambda>r. if c_id r = 1
          then spec_updated_character [(''height'', JStr ''180'')] luke else r)
          (characters demo_store)\<rparr>)
        (spec_updated_character [(''height'', JStr ''180'')] luke)), 200)"
    by (rule update_person_object [OF demo_get_luke])
      (simp_all add: storable_character_def dict_get_def)
  have su: "spec_updated_character [(''height'', JStr ''180'')] luke
      = luke\<lparr>c_height := JStr ''180''\<rparr>"
    by (simp add: spec_updated_character_def supplied_def)
  have rows180: "map (\<lambda>r. if c_id r = 1
          then spec_updated_character [(''height'', JStr ''180'')] luke else r)
          (characters demo_store) = [luke\<lparr>c_height := JStr ''180''\<rparr>, leia]"
    by (simp add: su demo_rows demo_ids)
  have s': "update_person demo_store 1 (JObj [(''height'', JStr ''180'')]) =
     (demo_store\<lparr>characters := [luke\<lparr>c_height := JStr ''180''\<rparr>, leia]\<rparr>,
      Json (serialize_character
        (demo_store\<lparr>characters := [luke\<lparr>c_height := JStr ''180''\<rparr>, leia]\<rparr>)
        (luke\<lparr>c_height := JStr ''180''\<rparr>)), 200)"
    by (simp add: s rows180 su)
  have i: "update_person demo_store 1 (JObj [(''id'', JInt 99)]) =
     (demo_store\<lparr>characters := map (\<lambda>r. if c_id r = 1
          then spec_updated_character [(''id'', JInt 99)] luke else r)
          (characters demo_store)\<rparr>,
      Json (serialize_character
        (demo_store\<lparr>characters := map (\<lambda>r. if c_id r = 1
          then spec_updated_character [(''id'', JInt 99)] luke else r)
          (characters demo_store)\<rparr>)
        (spec_updated_character [(''id'', JInt 99)] luke)), 200)"
    by (rule update_person_object [OF demo_get_luke])
      (simp_all add: storable_character_def dict_get_def)
  have iu: "spec_updated_character [(''id'', JInt 99)] luke = luke"
    by (simp add: spec_updated_character_def supplied_def)
  have same: "map (\<lambda>r. if c_id r = 1
          then spec_updated_character [(''id'', JInt 99)] luke else r) (characters demo_store)
      = characters demo_store"
    by (simp add: iu demo_rows demo_ids)
  have first: "update_person demo_store 1 (JInt 5) = (demo_store, Error_of TypeError, 500)"
    by (simp add: update_person_def q a)
  have second: "update_person demo_store 1 (JObj [(''name'', JNull)])
        = (demo_store, Error_of IntegrityError, 500)"
    by (simp add: update_person_def q apply_character_body_object commit_character_def n l)
  have third: "update_person demo_store 1 (JObj [(''height'', JArr [JInt 1])])
        = (demo_store, Error_of InterfaceError, 500)"
    by (simp add: update_person_def q apply_character_body_object commit_character_def h)
  have n180: "update_person demo_store 1 (JObj [(''height'', JInt 180)]) =
     (demo_store\<lparr>characters := [luke\<lparr>c_height := JStr ''180''\<rparr>, leia]\<rparr>,
      Json (serialize_character
        (demo_store\<lparr>characters := [luke\<lparr>c_height := JStr ''180''\<rparr>, leia]\<rparr>)
        (luke\<lparr>c_height := JStr ''180''\<rparr>)), 200)"
    by (simp add: update_person_def q apply_character_body_object
        commit_character_def t l demo_rows demo_ids)
  have fourth: "update_person demo_store 1 (JObj [(''height'', JInt 180)])
        = update_person demo_store 1 (JObj [(''height'', JStr ''180'')])"
    by (simp only: n180 s')
  have fifth: "update_person demo_store 1 (JObj [(''id'', JInt 99)])
        = (demo_store, Json (serialize_character demo_store luke), 200)"
    by (simp add: i iu same)
  show ?thesis
    using first second third fourth fifth demo_get_luke by simp
qed

text \<open>
  C9, as the code has it. A PUT on an existing Character whose body is a JSON object
  with storable values that sets \<^verbatim>\<open>name\<close> to the name of another stored Character
  answers 200, and the store then has two Characters, with different ids, of that name:
  the names of the table are not distinct any more. The update path looks no name up.
\<close>

theorem update_name_to_used:
  assumes "get_character st i = Some c" and "d \<in> set (characters st)" and "c_id d \<noteq> i"
    and "c_name d = JStr s" and "map_of kvs ''name'' = Some (JStr s)"
    and "storable_character kvs"
  shows "status_code (update_person st i (JObj kvs)) = 200
    \<and> (\<exists>a \<in> set (characters (store_after (update_person st i (JObj kvs)))).
        \<exists>b \<in> set (characters (store_after (update_person st i (JObj kvs)))).
          c_id a = i \<and> c_id b \<noteq> i \<and> c_name a = JStr s \<and> c_name b = JStr s)
    \<and> \<not> distinct (map c_name (characters (store_after (update_person st i (JObj kvs)))))"
proof -
  let ?c' = "spec_updated_character kvs c"
  let ?rows = "map (\<lambda>r. if c_id r = i then ?c' else r) (characters st)"
  have ne: "kvs \<noteq> []" using assms(5) by auto
  have nn: "map_of kvs ''name'' \<noteq> Some JNull" using assms(5) by simp
  have upd: "update_person st i (JObj kvs) =
      (st\<lparr>characters := ?rows\<rparr>, Json (serialize_character (st\<lparr>characters := ?rows\<rparr>) ?c'), 200)"
    using assms(1) ne nn assms(6) by (rule update_person_object)
  have ci: "c_id c = i" using assms(1) by (rule get_character_id)
  have cm: "c \<in> set (characters st)" using assms(1) by (rule get_character_mem)
  have idc: "c_id ?c' = i" using ci by (simp add: spec_updated_character_def)
  have nmc: "c_name ?c' = JStr s"
    using assms(5) by (simp add: spec_updated_character_def supplied_def)
  have a: "?c' \<in> set ?rows" using cm ci by force
  have b: "d \<in> set ?rows" using assms(2,3) by force
  have eq: "c_name ?c' = c_name d" using nmc assms(4) by simp
  have "?c' \<noteq> d" using idc assms(3) by auto
  with a b eq have "\<not> inj_on c_name (set ?rows)" by (auto simp: inj_on_def)
  then have nd: "\<not> distinct (map c_name ?rows)"
    using distinct_map [of c_name ?rows] by blast
  have ex: "\<exists>a \<in> set ?rows. \<exists>b \<in> set ?rows.
      c_id a = i \<and> c_id b \<noteq> i \<and> c_name a = JStr s \<and> c_name b = JStr s"
    using a b idc nmc assms(3,4) by blast
  show ?thesis
    using nd ex by (simp add: upd status_code_def store_after_def)
qed

theorem update_name_to_used_witness:
  "get_character demo_store 1 = Some luke \<and> leia \<in> set (characters demo_store)
   \<and> c_id leia \<noteq> 1 \<and> c_name leia = JStr ''Leia Organa''
   \<and> map_of [(''name'', JStr ''Leia Organa'')] ''name'' = Some (JStr ''Leia Organa'')
   \<and> storable_character [(''name'', JStr ''Leia Organa'')]
   \<and> distinct (map c_name (characters demo_store))
   \<and> status_code (update_person demo_store 1 (JObj [(''name'', JStr ''Leia Organa'')])) = 200
   \<and> \<not> distinct (map c_name (characters (store_after
         (update_person demo_store 1 (JObj [(''name'', JStr ''Leia Organa'')])))))"
proof -
  have m: "leia \<in> set (characters demo_store)" by (simp add: demo_store_def)
  have i: "c_id leia \<noteq> 1" by (simp add: leia_def)
  have n: "c_name leia = JStr ''Leia Organa''" by (simp add: leia_def)
  have k: "map_of [(''name'', JStr ''Leia Organa'')] ''name'' = Some (JStr ''Leia Organa'')"
    by simp
  have s: "storable_character [(''name'', JStr ''Leia Organa'')]"
    by (simp add: storable_character_def dict_get_def)
  have d: "distinct (map c_name (characters demo_store))"
    by (simp add: demo_store_def luke_def leia_def)
  show ?thesis
    using update_name_to_used [OF demo_get_luke m i n k s] m i n k s d demo_get_luke
    by simp
qed

text \<open>
  C9 as stated fails on a body that sets \<^verbatim>\<open>name\<close> to a used name and holds a value that
  the store refuses: the commit raises, the answer is 500 and the name is not changed.
\<close>

theorem update_name_unstorable_counterexample:
  "get_character demo_store 1 = Some luke \<and> get_character demo_store 2 = Some leia
   \<and> c_name leia = JStr ''Leia Organa''
   \<and> update_person demo_store 1
        (JObj [(''name'', JStr ''Leia Organa''), (''height'', JArr [JInt 1])])
        = (demo_store, Error_of InterfaceError, 500)"
proof -
  have q: "query_get_character demo_store 1 = Inr (Some luke)"
    by (rule query_get_character_Some [OF demo_get_luke])
  have w: "written_character luke
      (spec_updated_character [(''name'', JStr ''Leia Organa''), (''height'', JArr [JInt 1])] luke)
      = Inl InterfaceError"
    by (simp add: written_character_def spec_updated_character_def supplied_def write_cell_def
        store_text_def luke_def)
  have n: "c_name leia = JStr ''Leia Organa''" by (simp add: leia_def)
  show ?thesis
    using n demo_get_luke demo_get_leia
    by (simp add: update_person_def q apply_character_body_object commit_character_def w)
qed

subsection \<open>Create\<close>

lemma new_character_object: "new_character (JObj kvs) i now = Inr (spec_new_character kvs i now)"
  by (simp add: new_character_def spec_new_character_def)

lemma new_planet_object: "new_planet (JObj kvs) i now = Inr (spec_new_planet kvs i now)"
  by (simp add: new_planet_def spec_new_planet_def)

lemma truthy_name_nonempty: "truthy (dict_get kvs k) \<Longrightarrow> kvs \<noteq> []"
  by (auto simp: dict_get_def)

lemma create_person_falsy:
  "\<not> truthy body \<Longrightarrow> create_person st now body = (st, error_json ''Request body is required'', 400)"
  by (simp add: create_person_def)

lemma create_person_no_name:
  "kvs \<noteq> [] \<Longrightarrow> \<not> truthy (dict_get kvs ''name'') \<Longrightarrow>
     create_person st now (JObj kvs) = (st, error_json ''Name is required'', 400)"
  by (simp add: create_person_def)

lemma create_person_duplicate:
  assumes "truthy (dict_get kvs ''name'')"
    and "character_by_name st (dict_get kvs ''name'') \<noteq> None"
  shows "create_person st now (JObj kvs)
     = (st, error_json ''Character with this name already exists'', 400)"
  using assms truthy_name_nonempty [OF assms(1)] by (simp add: create_person_def)

lemma stored_character_storable:
  "storable_character kvs \<Longrightarrow>
     stored_character (spec_new_character kvs i now) = Inr (spec_new_character kvs i now)"
  by (simp add: storable_character_def stored_character_def spec_new_character_def
      store_text_kept store_integer_kept)

lemma stored_planet_storable:
  "storable_planet kvs \<Longrightarrow>
     stored_planet (spec_new_planet kvs i now) = Inr (spec_new_planet kvs i now)"
  by (simp add: storable_planet_def stored_planet_def spec_new_planet_def store_text_kept)

lemma create_person_created:
  assumes "truthy (dict_get kvs ''name'')"
    and "character_by_name st (dict_get kvs ''name'') = None"
    and "storable_character kvs"
  shows "create_person st now (JObj kvs) =
     (st\<lparr>characters := characters st
          @ [spec_new_character kvs (next_id (map c_id (characters st))) now]\<rparr>,
      Json (serialize_character
        (st\<lparr>characters := characters st
          @ [spec_new_character kvs (next_id (map c_id (characters st))) now]\<rparr>)
        (spec_new_character kvs (next_id (map c_id (characters st))) now)), 201)"
  using assms(1,2) truthy_name_nonempty [OF assms(1)]
  by (simp add: create_person_def new_character_object add_character_def
      stored_character_storable [OF assms(3)])

lemma create_planet_falsy:
  "\<not> truthy body \<Longrightarrow> create_planet st now body = (st, error_json ''Request body is required'', 400)"
  by (simp add: create_planet_def)

lemma create_planet_no_name:
  "kvs \<noteq> [] \<Longrightarrow> \<not> truthy (dict_get kvs ''name'') \<Longrightarrow>
     create_planet st now (JObj kvs) = (st, error_json ''Name is required'', 400)"
  by (simp add: create_planet_def)

lemma create_planet_duplicate:
  assumes "truthy (dict_get kvs ''name'')"
    and "planet_by_name st (dict_get kvs ''name'') \<noteq> None"
  shows "create_planet st now (JObj kvs)
     = (st, error_json ''Planet with this name already exists'', 400)"
  using assms truthy_name_nonempty [OF assms(1)] by (simp add: create_planet_def)

lemma create_planet_created:
  assumes "truthy (dict_get kvs ''name'')"
    and "planet_by_name st (dict_get kvs ''name'') = None"
    and "storable_planet kvs"
  shows "create_planet st now (JObj kvs) =
     (st\<lparr>planets := planets st @ [spec_new_planet kvs (next_id (map p_id (planets st))) now]\<rparr>,
      Json (serialize_planet (spec_new_planet kvs (next_id (map p_id (planets st))) now)), 201)"
  using assms(1,2) truthy_name_nonempty [OF assms(1)]
  by (simp add: create_planet_def new_planet_object add_planet_def
      stored_planet_storable [OF assms(3)])

lemma create_person_new_row:
  assumes "truthy (dict_get kvs ''name'')"
    and "character_by_name st (dict_get kvs ''name'') = None"
    and "storable_character kvs"
  shows "\<exists>c. create_person st now (JObj kvs) =
             (st\<lparr>characters := characters st @ [c]\<rparr>,
              Json (serialize_character (st\<lparr>characters := characters st @ [c]\<rparr>) c), 201)
         \<and> c = spec_new_character kvs (next_id (map c_id (characters st))) now
         \<and> c_id c \<notin> set (map c_id (characters st))
         \<and> c_created_at c = Some now"
proof -
  have "c_id (spec_new_character kvs (next_id (map c_id (characters st))) now)
      \<notin> set (map c_id (characters st))"
    using next_id_fresh [of "map c_id (characters st)"] by (simp add: spec_new_character_def)
  moreover have "c_created_at (spec_new_character kvs (next_id (map c_id (characters st))) now)
      = Some now"
    by (simp add: spec_new_character_def)
  ultimately show ?thesis
    using create_person_created [OF assms, of now] by simp
qed

lemma create_planet_new_row:
  assumes "truthy (dict_get kvs ''name'')"
    and "planet_by_name st (dict_get kvs ''name'') = None"
    and "storable_planet kvs"
  shows "\<exists>p. create_planet st now (JObj kvs) =
             (st\<lparr>planets := planets st @ [p]\<rparr>, Json (serialize_planet p), 201)
         \<and> p = spec_new_planet kvs (next_id (map p_id (planets st))) now
         \<and> p_id p \<notin> set (map p_id (planets st))
         \<and> p_created_at p = Some now"
proof -
  have "p_id (spec_new_planet kvs (next_id (map p_id (planets st))) now)
      \<notin> set (map p_id (planets st))"
    using next_id_fresh [of "map p_id (planets st)"] by (simp add: spec_new_planet_def)
  moreover have "p_created_at (spec_new_planet kvs (next_id (map p_id (planets st))) now)
      = Some now"
    by (simp add: spec_new_planet_def)
  ultimately show ?thesis
    using create_planet_created [OF assms, of now] by simp
qed

text \<open>
  C1, as the code has it. When \<^verbatim>\<open>get_json\<close> gives a create request a false value
  (null, false, 0, an empty string, list or object) the answer is 400. When it gives a
  JSON object: 400 when \<^verbatim>\<open>name\<close> is missing or empty (any false value), and the
  duplicate error (400) when a row of the same table has that name. Otherwise, when the
  values of the object for the eleven data fields are storable as they are (null or a
  string, for \<^verbatim>\<open>homeworld_id\<close> null or an integer of 64 bits) and the table has a key
  left after its largest one, exactly one row is appended, with a key that no row of the
  table had, \<^verbatim>\<open>created_at\<close> set to the time of the request and the other fields as
  given, and the answer is that row's serialization with 201.
\<close>

theorem create_cases:
  "(\<not> truthy body \<longrightarrow>
      create_person st now body = (st, error_json ''Request body is required'', 400)
    \<and> create_planet st now body = (st, error_json ''Request body is required'', 400))
 \<and> (kvs \<noteq> [] \<and> \<not> truthy (dict_get kvs ''name'') \<longrightarrow>
      create_person st now (JObj kvs) = (st, error_json ''Name is required'', 400)
    \<and> create_planet st now (JObj kvs) = (st, error_json ''Name is required'', 400))
 \<and> (truthy (dict_get kvs ''name'') \<and> character_by_name st (dict_get kvs ''name'') \<noteq> None \<longrightarrow>
      create_person st now (JObj kvs)
        = (st, error_json ''Character with this name already exists'', 400))
 \<and> (truthy (dict_get kvs ''name'') \<and> planet_by_name st (dict_get kvs ''name'') \<noteq> None \<longrightarrow>
      create_planet st now (JObj kvs)
        = (st, error_json ''Planet with this name already exists'', 400))
 \<and> (truthy (dict_get kvs ''name'') \<and> character_by_name st (dict_get kvs ''name'') = None
      \<and> storable_character kvs \<and> sqlite_int (next_id (map c_id (characters st))) \<longrightarrow>
      (\<exists>c. create_person st now (JObj kvs) =
             (st\<lparr>characters := characters st @ [c]\<rparr>,
              Json (serialize_character (st\<lparr>characters := characters st @ [c]\<rparr>) c), 201)
         \<and> c = spec_new_character kvs (next_id (map c_id (characters st))) now
         \<and> c_id c \<notin> set (map c_id (characters st))
         \<and> c_created_at c = Some now))
 \<and> (truthy (dict_get kvs ''name'') \<and> planet_by_name st (dict_get kvs ''name'') = None
      \<and> storable_planet kvs \<and> sqlite_int (next_id (map p_id (planets st))) \<longrightarrow>
      (\<exists>p. create_planet st now (JObj kvs) =
             (st\<lparr>planets := planets st @ [p]\<rparr>, Json (serialize_planet p), 201)
         \<and> p = spec_new_planet kvs (next_id (map p_id (planets st))) now
         \<and> p_id p \<notin> set (map p_id (planets st))
         \<and> p_created_at p = Some now))"
proof (intro conjI impI)
  assume "truthy (dict_get kvs ''name'') \<and> character_by_name st (dict_get kvs ''name'') = None
      \<and> storable_character kvs \<and> sqlite_int (next_id (map c_id (characters st)))"
  then show "\<exists>c. create_person st now (JObj kvs) =
             (st\<lparr>characters := characters st @ [c]\<rparr>,
              Json (serialize_character (st\<lparr>characters := characters st @ [c]\<rparr>) c), 201)
         \<and> c = spec_new_character kvs (next_id (map c_id (characters st))) now
         \<and> c_id c \<notin> set (map c_id (characters st))
         \<and> c_created_at c = Some now"
    using create_person_new_row [of kvs st now] by blast
next
  assume "truthy (dict_get kvs ''name'') \<and> planet_by_name st (dict_get kvs ''name'') = None
      \<and> storable_planet kvs \<and> sqlite_int (next_id (map p_id (planets st)))"
  then show "\<exists>p. create_planet st now (JObj kvs) =
             (st\<lparr>planets := planets st @ [p]\<rparr>, Json (serialize_planet p), 201)
         \<and> p = spec_new_planet kvs (next_id (map p_id (planets st))) now
         \<and> p_id p \<notin> set (map p_id (planets st))
         \<and> p_created_at p = Some now"
    using create_planet_new_row [of kvs st now] by blast
qed (simp_all add: create_person_falsy create_person_no_name create_person_duplicate
    create_planet_falsy create_planet_no_name create_planet_duplicate)

theorem create_cases_witness:
  "\<not> truthy JNull
   \<and> create_person demo_store a_time JNull
       = (demo_store, error_json ''Request body is required'', 400)
   \<and> create_planet demo_store a_time JNull
       = (demo_store, error_json ''Request body is required'', 400)
   \<and> \<not> truthy (dict_get [(''height'', JStr ''172'')] ''name'')
   \<and> create_person demo_store a_time (JObj [(''height'', JStr ''172'')])
       = (demo_store, error_json ''Name is required'', 400)
   \<and> create_planet demo_store a_time (JObj [(''height'', JStr ''172'')])
       = (demo_store, error_json ''Name is required'', 400)
   \<and> character_by_name demo_store (dict_get [(''name'', JStr ''Luke Skywalker'')] ''name'') \<noteq> None
   \<and> planet_by_name demo_store (dict_get [(''name'', JStr ''Luke Skywalker'')] ''name'') = None
   \<and> storable_planet [(''name'', JStr ''Luke Skywalker'')]
   \<and> sqlite_int (next_id (map p_id (planets demo_store)))
   \<and> create_person demo_store a_time (JObj [(''name'', JStr ''Luke Skywalker'')])
       = (demo_store, error_json ''Character with this name already exists'', 400)
   \<and> create_planet demo_store a_time (JObj [(''name'', JStr ''Luke Skywalker'')])
       = (demo_store\<lparr>planets := [tatooine,
             spec_new_planet [(''name'', JStr ''Luke Skywalker'')] 2 a_time]\<rparr>,
          Json (serialize_planet (spec_new_planet [(''name'', JStr ''Luke Skywalker'')] 2 a_time)),
          201)
   \<and> character_by_name demo_store (dict_get [(''name'', JStr ''Tatooine'')] ''name'') = None
   \<and> planet_by_name demo_store (dict_get [(''name'', JStr ''Tatooine'')] ''name'') \<noteq> None
   \<and> storable_character [(''name'', JStr ''Tatooine'')]
   \<and> sqlite_int (next_id (map c_id (characters demo_store)))
   \<and> create_planet demo_store a_time (JObj [(''name'', JStr ''Tatooine'')])
       = (demo_store, error_json ''Planet with this name already exists'', 400)
   \<and> status_code (create_person demo_store a_time (JObj [(''name'', JStr ''Tatooine'')])) = 201
   \<and> characters (store_after (create_person demo_store a_time (JObj [(''name'', JStr ''Tatooine'')])))
       = [luke, leia, spec_new_character [(''name'', JStr ''Tatooine'')] 3 a_time]"
proof -
  let ?h = "[(''height'', JStr ''172'')]"
  let ?l = "[(''name'', JStr ''Luke Skywalker'')]"
  let ?t = "[(''name'', JStr ''Tatooine'')]"
  have ids: "next_id [c_id luke, c_id leia] = 3" "next_id [p_id tatooine] = 2"
    by (simp_all add: next_id_def demo_ids)
  have names: "dict_get ?h ''name'' = JNull" "dict_get ?l ''name'' = JStr ''Luke Skywalker''"
    "dict_get ?t ''name'' = JStr ''Tatooine''"
    by (simp_all add: dict_get_def)
  have look: "character_by_name demo_store (JStr ''Luke Skywalker'') \<noteq> None"
    "planet_by_name demo_store (JStr ''Luke Skywalker'') = None"
    "character_by_name demo_store (JStr ''Tatooine'') = None"
    "planet_by_name demo_store (JStr ''Tatooine'') \<noteq> None"
    by (simp_all add: character_by_name_def planet_by_name_def demo_store_def
        luke_def leia_def tatooine_def)
  have st: "storable_planet ?l" "storable_character ?t"
    by (simp_all add: storable_planet_def storable_character_def dict_get_def)
  show ?thesis
    using create_cases [of JNull demo_store a_time ?h]
      create_cases [of JNull demo_store a_time ?l]
      create_cases [of JNull demo_store a_time ?t]
    by (simp add: ids names look st sqlite_int_small demo_rows status_code_def store_after_def)
qed

lemma create_not_object:
  assumes "truthy body" and "\<And>kvs. body \<noteq> JObj kvs"
  shows "create_person st now body = (st, Error_of AttributeError, 500)"
    and "create_planet st now body = (st, Error_of AttributeError, 500)"
  using assms by (cases body; simp add: create_person_def create_planet_def)+

text \<open>
  C1 as stated fails on a body that is not empty and not a JSON object: a list has no
  \<^verbatim>\<open>get\<close>, and the answer is 500, not 400 and not 201. It fails as well on an object
  with a name, or another value, that the store refuses (a list, an integer beyond 64
  bits): the statement raises and the answer is 500. A number given for a text field
  is not stored as given but as its decimal text.
\<close>

theorem create_list_body_counterexample:
  "truthy (JArr [JInt 1])
   \<and> create_person demo_store a_time (JArr [JInt 1])
        = (demo_store, Error_of AttributeError, 500)
   \<and> create_planet demo_store a_time (JArr [JInt 1])
        = (demo_store, Error_of AttributeError, 500)
   \<and> create_person demo_store a_time (JObj [(''name'', JArr [JStr ''a''])])
        = (demo_store, Error_of InterfaceError, 500)
   \<and> create_person demo_store a_time
        (JObj [(''name'', JStr ''Han Solo''), (''homeworld_id'', JInt 9223372036854775808)])
        = (demo_store, Error_of OverflowError, 500)
   \<and> create_person demo_store a_time (JObj [(''name'', JStr ''Han Solo''), (''height'', JInt 180)])
        = create_person demo_store a_time
            (JObj [(''name'', JStr ''Han Solo''), (''height'', JStr ''180'')])"
proof -
  let ?a = "[(''name'', JArr [JStr ''a''])]"
  let ?o = "[(''name'', JStr ''Han Solo''), (''homeworld_id'', JInt 9223372036854775808)]"
  let ?n = "[(''name'', JStr ''Han Solo''), (''height'', JInt 180)]"
  let ?s = "[(''name'', JStr ''Han Solo''), (''height'', JStr ''180'')]"
  have g: "dict_get ?a ''name'' = JArr [JStr ''a'']" "dict_get ?o ''name'' = JStr ''Han Solo''"
    "dict_get ?n ''name'' = JStr ''Han Solo''" "dict_get ?s ''name'' = JStr ''Han Solo''"
    by (simp_all add: dict_get_def)
  have n: "character_by_name demo_store (JArr [JStr ''a'']) = None"
    "character_by_name demo_store (JStr ''Han Solo'') = None"
    by (simp_all add: character_by_name_def demo_store_def luke_def leia_def)
  have a: "stored_character (spec_new_character ?a i a_time) = Inl InterfaceError" for i
    by (simp add: stored_character_def spec_new_character_def dict_get_def store_text_def)
  have o: "stored_character (spec_new_character ?o i a_time) = Inl OverflowError" for i
    by (simp add: stored_character_def spec_new_character_def dict_get_def store_text_def
        store_integer_def sqlite_int_def)
  have h: "stored_character (spec_new_character ?n i a_time)
      = stored_character (spec_new_character ?s i a_time)" for i
    by (simp add: stored_character_def spec_new_character_def dict_get_def store_text_180)
      (simp add: store_text_def)
  have l: "create_person demo_store a_time (JArr [JInt 1])
        = (demo_store, Error_of AttributeError, 500)"
    "create_planet demo_store a_time (JArr [JInt 1])
        = (demo_store, Error_of AttributeError, 500)"
    by (simp_all add: create_person_def create_planet_def)
  have ca: "create_person demo_store a_time (JObj ?a)
        = (demo_store, Error_of InterfaceError, 500)"
    by (simp add: create_person_def new_character_object add_character_def g n a)
  have co: "create_person demo_store a_time (JObj ?o)
        = (demo_store, Error_of OverflowError, 500)"
    by (simp add: create_person_def new_character_object add_character_def g n o)
  have cn: "create_person demo_store a_time (JObj ?n) = create_person demo_store a_time (JObj ?s)"
    by (simp add: create_person_def new_character_object add_character_def g n h)
  show ?thesis
    using l ca co cn by simp
qed

lemma character_by_name_mem: "c \<in> set (characters st) \<Longrightarrow> character_by_name st (c_name c) \<noteq> None"
  by (auto simp: character_by_name_def find_None_iff)

lemma planet_by_name_mem: "p \<in> set (planets st) \<Longrightarrow> planet_by_name st (p_name p) \<noteq> None"
  by (auto simp: planet_by_name_def find_None_iff)

lemma dict_get_Some: "map_of kvs k = Some v \<Longrightarrow> dict_get kvs k = v"
  by (simp add: dict_get_def)

text \<open>
  C2, as the code has it. A create request whose body is a JSON object with a \<^verbatim>\<open>name\<close>
  that is not empty and is the name of a stored Character (resp. Planet) is answered
  with 400 and \<^verbatim>\<open>{"error": "Character with this name already exists"}\<close> (resp. the planet
  message), and the store is unchanged. When that shared name is empty the answer is 400
  as well and the store is unchanged, but the body is \<^verbatim>\<open>{"error": "Name is required"}\<close>.
\<close>

theorem create_existing_name:
  "(c \<in> set (characters st) \<and> map_of kvs ''name'' = Some (c_name c) \<longrightarrow>
      create_person st now (JObj kvs) =
        (st, error_json (if truthy (c_name c) then ''Character with this name already exists''
                         else ''Name is required''), 400))
 \<and> (p \<in> set (planets st) \<and> map_of kvs ''name'' = Some (p_name p) \<longrightarrow>
      create_planet st now (JObj kvs) =
        (st, error_json (if truthy (p_name p) then ''Planet with this name already exists''
                         else ''Name is required''), 400))"
proof (intro conjI impI)
  assume a: "c \<in> set (characters st) \<and> map_of kvs ''name'' = Some (c_name c)"
  then have n: "dict_get kvs ''name'' = c_name c" by (simp add: dict_get_Some)
  have ne: "kvs \<noteq> []" using a by auto
  have ex: "character_by_name st (c_name c) \<noteq> None" using a by (simp add: character_by_name_mem)
  show "create_person st now (JObj kvs) =
        (st, error_json (if truthy (c_name c) then ''Character with this name already exists''
                         else ''Name is required''), 400)"
    using n ne ex create_person_no_name [of kvs st now] create_person_duplicate [of kvs st now]
    by (cases "truthy (c_name c)") simp_all
next
  assume a: "p \<in> set (planets st) \<and> map_of kvs ''name'' = Some (p_name p)"
  then have n: "dict_get kvs ''name'' = p_name p" by (simp add: dict_get_Some)
  have ne: "kvs \<noteq> []" using a by auto
  have ex: "planet_by_name st (p_name p) \<noteq> None" using a by (simp add: planet_by_name_mem)
  show "create_planet st now (JObj kvs) =
        (st, error_json (if truthy (p_name p) then ''Planet with this name already exists''
                         else ''Name is required''), 400)"
    using n ne ex create_planet_no_name [of kvs st now] create_planet_duplicate [of kvs st now]
    by (cases "truthy (p_name p)") simp_all
qed

theorem create_existing_name_witness:
  "luke \<in> set (characters demo_store)
   \<and> map_of [(''name'', JStr ''Luke Skywalker'')] ''name'' = Some (c_name luke)
   \<and> tatooine \<in> set (planets demo_store)
   \<and> map_of [(''name'', JStr ''Tatooine'')] ''name'' = Some (p_name tatooine)
   \<and> create_person demo_store a_time (JObj [(''name'', JStr ''Luke Skywalker'')])
       = (demo_store, error_json ''Character with this name already exists'', 400)
   \<and> create_planet demo_store a_time (JObj [(''name'', JStr ''Tatooine'')])
       = (demo_store, error_json ''Planet with this name already exists'', 400)"
proof -
  have l: "c_name luke = JStr ''Luke Skywalker''" by (simp add: luke_def)
  have t: "p_name tatooine = JStr ''Tatooine''" by (simp add: tatooine_def)
  show ?thesis
    using create_existing_name [where c = luke and st = demo_store and p = tatooine
        and now = a_time and kvs = "[(''name'', JStr ''Luke Skywalker'')]"]
      create_existing_name [where c = luke and st = demo_store and p = tatooine
        and now = a_time and kvs = "[(''name'', JStr ''Tatooine'')]"]
    by (simp add: l t demo_rows)
qed

text \<open>
  C2 as stated fails for the empty name. \<^verbatim>\<open>PUT /people/2\<close> with \<^verbatim>\<open>{"name": ""}\<close> is
  accepted, so a Character named \<^verbatim>\<open>""\<close> is stored; a create request with that name is
  then refused as lacking a name, not as a duplicate.
\<close>

theorem create_blank_name_counterexample:
  "status_code (update_person demo_store 2 blank_name_body) = 200
   \<and> character_by_name blank_name_store (JStr []) \<noteq> None
   \<and> py_get blank_name_body ''name'' = Inr (JStr [])
   \<and> create_person blank_name_store a_time blank_name_body
        = (blank_name_store, error_json ''Name is required'', 400)
   \<and> error_json ''Name is required'' \<noteq> error_json ''Character with this name already exists''"
proof -
  let ?kvs = "[(''name'', JStr [])]"
  have upd: "update_person demo_store 2 (JObj ?kvs) =
     (demo_store\<lparr>characters := map (\<lambda>r. if c_id r = 2 then spec_updated_character ?kvs leia else r)
                            (characters demo_store)\<rparr>,
      Json (serialize_character
        (demo_store\<lparr>characters := map (\<lambda>r. if c_id r = 2 then spec_updated_character ?kvs leia else r)
                               (characters demo_store)\<rparr>)
        (spec_updated_character ?kvs leia)), 200)"
    by (rule update_person_object [OF demo_get_leia])
      (simp_all add: storable_character_def dict_get_def)
  have nm: "c_name (spec_updated_character ?kvs leia) = JStr []"
    by (simp add: spec_updated_character_def supplied_def)
  have "character_by_name blank_name_store (JStr []) \<noteq> None"
    using nm by (simp add: blank_name_store_def blank_name_body_def upd store_after_def
        character_by_name_def demo_rows demo_ids luke_def)
  then show ?thesis
    by (simp add: blank_name_body_def upd status_code_def create_person_def dict_get_def
        error_json_def)
qed

subsection \<open>Delete\<close>

lemma delete_person_removes:
  assumes "get_character st i = Some c"
    and "find (\<lambda>f. fc_character_id f = i) (favorite_characters st) = None"
  shows "delete_person py_str st i =
        (st\<lparr>characters := filter (\<lambda>r. c_id r \<noteq> i) (characters st)\<rparr>,
         Json (JObj [(''message'',
           JStr (''Character '' @ py_str (c_name c) @ '' deleted successfully''))]), 200)"
  using assms get_character_id [OF assms(1)]
  by (simp add: delete_person_def session_delete_character_def query_get_character_found)

lemma delete_planet_removes:
  assumes "get_planet st j = Some p"
    and "find (\<lambda>f. fp_planet_id f = j) (favorite_planets st) = None"
  shows "delete_planet py_str st j =
        (st\<lparr>planets := filter (\<lambda>r. p_id r \<noteq> j) (planets st),
            characters := map (\<lambda>c. if c_homeworld_id c = JInt j
                                     then c\<lparr>c_homeworld_id := JNull\<rparr> else c) (characters st)\<rparr>,
         Json (JObj [(''message'',
           JStr (''Planet '' @ py_str (p_name p) @ '' deleted successfully''))]), 200)"
  using assms get_planet_id [OF assms(1)]
  by (simp add: delete_planet_def session_delete_planet_def query_get_planet_found)

lemma delete_person_absent:
  assumes "get_character st i = None" and "sqlite_int i"
  shows "delete_person py_str st i = (st, error_json ''Character not found'', 404)"
  using assms by (simp add: delete_person_def query_get_character_def)

lemma delete_planet_absent:
  assumes "get_planet st j = None" and "sqlite_int j"
  shows "delete_planet py_str st j = (st, error_json ''Planet not found'', 404)"
  using assms by (simp add: delete_planet_def query_get_planet_def)

text \<open>
  C7, as the code has it. \<^verbatim>\<open>DELETE /people/{id}\<close> (resp. \<^verbatim>\<open>/planets/{id}\<close>) on an existing
  Character (Planet) that no favorite row refers to removes the row and answers 200 with
  the message "Character <name> deleted successfully" ("Planet <name> ..."), the name
  being the text \<open>s\<close> stored as the deleted row's name (Python's \<^verbatim>\<open>str\<close> gives a string
  back as it is); afterwards no row has that id. When no row has the id and the id is
  one that the store can look up (an integer of 64 bits), the answer is 404 and the store
  is unchanged.
\<close>

theorem delete_unreferenced:
  "(get_character st i = Some c \<and> c_name c = JStr s \<and> py_str (JStr s) = s
      \<and> find (\<lambda>f. fc_character_id f = i) (favorite_characters st) = None \<longrightarrow>
      delete_person py_str st i =
        (st\<lparr>characters := filter (\<lambda>r. c_id r \<noteq> i) (characters st)\<rparr>,
         Json (JObj [(''message'', JStr (''Character '' @ s @ '' deleted successfully''))]), 200)
      \<and> get_character (store_after (delete_person py_str st i)) i = None)
 \<and> (get_character st i = None \<and> sqlite_int i \<longrightarrow>
      delete_person py_str st i = (st, error_json ''Character not found'', 404))
 \<and> (get_planet st j = Some p \<and> p_name p = JStr t \<and> py_str (JStr t) = t
      \<and> find (\<lambda>f. fp_planet_id f = j) (favorite_planets st) = None \<longrightarrow>
      status_code (delete_planet py_str st j) = 200
      \<and> response_body (delete_planet py_str st j) =
         Json (JObj [(''message'', JStr (''Planet '' @ t @ '' deleted successfully''))])
      \<and> planets (store_after (delete_planet py_str st j))
           = filter (\<lambda>r. p_id r \<noteq> j) (planets st)
      \<and> get_planet (store_after (delete_planet py_str st j)) j = None)
 \<and> (get_planet st j = None \<and> sqlite_int j \<longrightarrow>
      delete_planet py_str st j = (st, error_json ''Planet not found'', 404))"
proof (intro conjI impI)
  assume a: "get_character st i = Some c \<and> c_name c = JStr s \<and> py_str (JStr s) = s
      \<and> find (\<lambda>f. fc_character_id f = i) (favorite_characters st) = None"
  then have "delete_person py_str st i =
        (st\<lparr>characters := filter (\<lambda>r. c_id r \<noteq> i) (characters st)\<rparr>,
         Json (JObj [(''message'',
           JStr (''Character '' @ py_str (c_name c) @ '' deleted successfully''))]), 200)"
    by (simp add: delete_person_removes)
  with a show d: "delete_person py_str st i =
        (st\<lparr>characters := filter (\<lambda>r. c_id r \<noteq> i) (characters st)\<rparr>,
         Json (JObj [(''message'', JStr (''Character '' @ s @ '' deleted successfully''))]), 200)"
    by simp
  show "get_character (store_after (delete_person py_str st i)) i = None"
    by (simp add: d store_after_def get_character_def find_None_filter)
next
  assume "get_character st i = None \<and> sqlite_int i"
  then show "delete_person py_str st i = (st, error_json ''Character not found'', 404)"
    by (simp add: delete_person_absent)
next
  assume a: "get_planet st j = Some p \<and> p_name p = JStr t \<and> py_str (JStr t) = t
      \<and> find (\<lambda>f. fp_planet_id f = j) (favorite_planets st) = None"
  then have "delete_planet py_str st j =
        (st\<lparr>planets := filter (\<lambda>r. p_id r \<noteq> j) (planets st),
            characters := map (\<lambda>c. if c_homeworld_id c = JInt j
                                     then c\<lparr>c_homeworld_id := JNull\<rparr> else c) (characters st)\<rparr>,
         Json (JObj [(''message'',
           JStr (''Planet '' @ py_str (p_name p) @ '' deleted successfully''))]), 200)"
    by (simp add: delete_planet_removes)
  with a have d: "delete_planet py_str st j =
        (st\<lparr>planets := filter (\<lambda>r. p_id r \<noteq> j) (planets st),
            characters := map (\<lambda>c. if c_homeworld_id c = JInt j
                                     then c\<lparr>c_homeworld_id := JNull\<rparr> else c) (characters st)\<rparr>,
         Json (JObj [(''message'', JStr (''Planet '' @ t @ '' deleted successfully''))]), 200)"
    by simp
  show "status_code (delete_planet py_str st j) = 200"
    by (simp add: d status_code_def)
  show "response_body (delete_planet py_str st j) =
         Json (JObj [(''message'', JStr (''Planet '' @ t @ '' deleted successfully''))])"
    by (simp add: d response_body_def)
  show "planets (store_after (delete_planet py_str st j))
      = filter (\<lambda>r. p_id r \<noteq> j) (planets st)"
    by (simp add: d store_after_def)
  show "get_planet (store_after (delete_planet py_str st j)) j = None"
    by (simp add: d store_after_def get_planet_def find_None_filter)
next
  assume "get_planet st j = None \<and> sqlite_int j"
  then show "delete_planet py_str st j = (st, error_json ''Planet not found'', 404)"
    by (simp add: delete_planet_absent)
qed

theorem delete_unreferenced_witness:
  "get_character demo_store 2 = Some leia
   \<and> c_name leia = JStr ''Leia Organa''
   \<and> str_of_string (JStr ''Leia Organa'') = ''Leia Organa''
   \<and> find (\<lambda>f. fc_character_id f = 2) (favorite_characters demo_store) = None
   \<and> delete_person str_of_string demo_store 2 =
       (demo_store\<lparr>characters := [luke]\<rparr>,
        Json (JObj [(''message'', JStr ''Character Leia Organa deleted successfully'')]), 200)
   \<and> get_planet demo_store 1 = Some tatooine
   \<and> p_name tatooine = JStr ''Tatooine''
   \<and> str_of_string (JStr ''Tatooine'') = ''Tatooine''
   \<and> find (\<lambda>f. fp_planet_id f = 1) (favorite_planets demo_store) = None
   \<and> status_code (delete_planet str_of_string demo_store 1) = 200
   \<and> response_body (delete_planet str_of_string demo_store 1) =
        Json (JObj [(''message'', JStr ''Planet Tatooine deleted successfully'')])
   \<and> planets (store_after (delete_planet str_of_string demo_store 1)) = []
   \<and> get_character demo_store 5 = None \<and> get_planet demo_store 5 = None \<and> sqlite_int 5
   \<and> delete_person str_of_string demo_store 5
        = (demo_store, error_json ''Character not found'', 404)
   \<and> delete_planet str_of_string demo_store 5
        = (demo_store, error_json ''Planet not found'', 404)"
proof -
  have nc: "find (\<lambda>f. fc_character_id f = 2) (favorite_characters demo_store) = None"
    by (simp add: demo_store_def)
  have np: "find (\<lambda>f. fp_planet_id f = 1) (favorite_planets demo_store) = None"
    by (simp add: demo_store_def)
  have rows: "filter (\<lambda>r. c_id r \<noteq> 2) (characters demo_store) = [luke]"
    "filter (\<lambda>r. p_id r \<noteq> 1) (planets demo_store) = []"
    by (simp_all add: demo_store_def luke_def leia_def tatooine_def)
  have names: "c_name leia = JStr ''Leia Organa''" "p_name tatooine = JStr ''Tatooine''"
    by (simp_all add: leia_def tatooine_def)
  show ?thesis
    using delete_unreferenced [of demo_store 2 leia "''Leia Organa''" str_of_string
        1 tatooine "''Tatooine''"]
      delete_unreferenced [of demo_store 5 leia "''Leia Organa''" str_of_string
        5 tatooine "''Tatooine''"]
      nc np rows names demo_get_leia demo_get_tatooine demo_no_character5 demo_no_planet5
      sqlite_int_small
    by simp
qed

text \<open>
  C7 as stated fails on a Character or a Planet that a favorite row refers to: the
  commit raises, the answer is 500 and the row stays. It fails as well on an id beyond
  64 bits, which no row has: the lookup raises and the answer is 500, not 404.
\<close>

theorem delete_favorited_counterexample:
  "get_character favorites_store 1 = Some luke
   \<and> delete_person str_of_string favorites_store 1
        = (favorites_store, Error_of IntegrityError, 500)
   \<and> get_planet favorites_store 1 = Some tatooine
   \<and> delete_planet str_of_string favorites_store 1
        = (favorites_store, Error_of IntegrityError, 500)
   \<and> get_character demo_store 99999999999999999999 = None
   \<and> delete_person str_of_string demo_store 99999999999999999999
        = (demo_store, Error_of OverflowError, 500)
   \<and> get_planet demo_store 99999999999999999999 = None
   \<and> delete_planet str_of_string demo_store 99999999999999999999
        = (demo_store, Error_of OverflowError, 500)"
proof -
  have f: "get_character favorites_store 1 = Some luke"
    "get_planet favorites_store 1 = Some tatooine"
    by (simp_all add: get_character_def get_planet_def favorites_store_def demo_store_def
        luke_def tatooine_def sqlite_int_small)
  have fav: "find (\<lambda>f. fc_character_id f = c_id luke) (favorite_characters favorites_store) \<noteq> None"
    "find (\<lambda>f. fp_planet_id f = p_id tatooine) (favorite_planets favorites_store) \<noteq> None"
    by (simp_all add: favorites_store_def demo_ids)
  have d: "delete_person str_of_string favorites_store 1
        = (favorites_store, Error_of IntegrityError, 500)"
    "delete_planet str_of_string favorites_store 1
        = (favorites_store, Error_of IntegrityError, 500)"
    using fav
    by (simp_all add: delete_person_def delete_planet_def query_get_character_Some [OF f(1)]
        query_get_planet_Some [OF f(2)] session_delete_character_def
        session_delete_planet_def)
  have h: "get_character demo_store 99999999999999999999 = None"
    "get_planet demo_store 99999999999999999999 = None"
    "delete_person str_of_string demo_store 99999999999999999999
        = (demo_store, Error_of OverflowError, 500)"
    "delete_planet str_of_string demo_store 99999999999999999999
        = (demo_store, Error_of OverflowError, 500)"
    by (simp_all add: get_character_def get_planet_def delete_person_def delete_planet_def
        query_get_character_def query_get_planet_def sqlite_int_huge)
  show ?thesis
    using f d h by simp
qed

subsection \<open>Favorites\<close>

text \<open>
  C5. Adding a favorite first needs the current user (id 1): without that user the
  answer is 404 "User not found", for a planet and for a character. With the user
  there, it needs the target: 404 "Planet not found" (resp. "Character not found")
  when no row has the id of the route and the id is one that the store can look up (an
  integer of 64 bits). The store is left as it was in each case.
\<close>

theorem add_favorite_not_found:
  "(get_user st current_user_id = None \<longrightarrow>
      add_favorite_planet st now pid = (st, error_json ''User not found'', 404)
    \<and> add_favorite_people st now cid = (st, error_json ''User not found'', 404))
 \<and> (get_user st current_user_id \<noteq> None \<and> get_planet st pid = None \<and> sqlite_int pid \<longrightarrow>
      add_favorite_planet st now pid = (st, error_json ''Planet not found'', 404))
 \<and> (get_user st current_user_id \<noteq> None \<and> get_character st cid = None \<and> sqlite_int cid \<longrightarrow>
      add_favorite_people st now cid = (st, error_json ''Character not found'', 404))"
  by (auto simp: add_favorite_planet_def add_favorite_people_def query_get_character_def
      query_get_planet_def)

theorem add_favorite_not_found_witness:
  "get_user empty_store current_user_id = None
   \<and> add_favorite_planet empty_store a_time 5 = (empty_store, error_json ''User not found'', 404)
   \<and> add_favorite_people empty_store a_time 5 = (empty_store, error_json ''User not found'', 404)
   \<and> get_user demo_store current_user_id \<noteq> None \<and> get_planet demo_store 5 = None
   \<and> get_character demo_store 5 = None \<and> sqlite_int 5
   \<and> add_favorite_planet demo_store a_time 5 = (demo_store, error_json ''Planet not found'', 404)
   \<and> add_favorite_people demo_store a_time 5
       = (demo_store, error_json ''Character not found'', 404)"
proof -
  have e: "get_user empty_store current_user_id = None"
    by (simp add: get_user_def empty_store_def)
  have u: "get_user demo_store current_user_id \<noteq> None"
    by (simp add: current_user_id_def demo_get_user)
  show ?thesis
    using add_favorite_not_found [of empty_store a_time 5 5]
      add_favorite_not_found [of demo_store a_time 5 5]
      e u demo_no_planet5 demo_no_character5 sqlite_int_small
    by simp
qed

text \<open>
  C5 as stated fails on a target id beyond 64 bits: no row has it, but the lookup
  raises instead of finding nothing, and the answer is 500, not 404.
\<close>

theorem add_favorite_huge_id_counterexample:
  "get_user demo_store current_user_id \<noteq> None
   \<and> get_planet demo_store 99999999999999999999 = None
   \<and> add_favorite_planet demo_store a_time 99999999999999999999
        = (demo_store, Error_of OverflowError, 500)
   \<and> get_character demo_store 99999999999999999999 = None
   \<and> add_favorite_people demo_store a_time 99999999999999999999
        = (demo_store, Error_of OverflowError, 500)"
proof -
  have u: "get_user demo_store current_user_id = Some user1"
    by (simp add: current_user_id_def demo_get_user)
  have n: "get_planet demo_store 99999999999999999999 = None"
    "get_character demo_store 99999999999999999999 = None"
    by (simp_all add: get_planet_def get_character_def sqlite_int_huge)
  have q: "query_get_planet demo_store 99999999999999999999 = Inl OverflowError"
    "query_get_character demo_store 99999999999999999999 = Inl OverflowError"
    by (simp_all add: query_get_planet_def query_get_character_def sqlite_int_huge)
  show ?thesis
    by (simp add: add_favorite_planet_def add_favorite_people_def u n q)
qed

lemma add_favorite_people_created:
  assumes "get_user st current_user_id \<noteq> None" and "get_character st i \<noteq> None"
    and "favorite_character_by st current_user_id i = None"
  shows "add_favorite_people st now i =
    (add_favorite_character_row st (new_favorite_character st now current_user_id i),
     Json (serialize_favorite_character
       (add_favorite_character_row st (new_favorite_character st now current_user_id i))
       (new_favorite_character st now current_user_id i)), 201)"
  using assms by (auto simp: add_favorite_people_def query_get_character_found)

lemma add_favorite_people_duplicate:
  assumes "get_user st current_user_id \<noteq> None" and "get_character st i \<noteq> None"
    and "favorite_character_by st current_user_id i \<noteq> None"
  shows "add_favorite_people st now i = (st, error_json ''Character is already in favorites'', 400)"
  using assms by (auto simp: add_favorite_people_def query_get_character_found)

lemma add_favorite_planet_created:
  assumes "get_user st current_user_id \<noteq> None" and "get_planet st i \<noteq> None"
    and "favorite_planet_by st current_user_id i = None"
  shows "add_favorite_planet st now i =
    (add_favorite_planet_row st (new_favorite_planet st now current_user_id i),
     Json (serialize_favorite_planet
       (add_favorite_planet_row st (new_favorite_planet st now current_user_id i))
       (new_favorite_planet st now current_user_id i)), 201)"
  using assms by (auto simp: add_favorite_planet_def query_get_planet_found)

lemma add_favorite_planet_duplicate:
  assumes "get_user st current_user_id \<noteq> None" and "get_planet st i \<noteq> None"
    and "favorite_planet_by st current_user_id i \<noteq> None"
  shows "add_favorite_planet st now i = (st, error_json ''Planet is already in favorites'', 400)"
  using assms by (auto simp: add_favorite_planet_def query_get_planet_found)

lemma favorite_people_twice:
  assumes u: "get_user st current_user_id \<noteq> None" and c: "get_character st i \<noteq> None"
    and n: "favorite_character_by st current_user_id i = None"
  shows "status_code (add_favorite_people st t1 i) = 201
    \<and> status_code (add_favorite_people (store_after (add_favorite_people st t1 i)) t2 i) = 400
    \<and> length (filter (\<lambda>f. fc_user_id f = current_user_id \<and> fc_character_id f = i)
         (favorite_characters (store_after
            (add_favorite_people (store_after (add_favorite_people st t1 i)) t2 i)))) = 1"
proof -
  let ?f = "new_favorite_character st t1 current_user_id i"
  let ?st1 = "add_favorite_character_row st ?f"
  have first: "add_favorite_people st t1 i = (?st1, Json (serialize_favorite_character ?st1 ?f), 201)"
    using u c n by (rule add_favorite_people_created)
  have u1: "get_user ?st1 current_user_id \<noteq> None"
    using u by (simp add: get_user_def add_favorite_character_row_def)
  have c1: "get_character ?st1 i \<noteq> None"
    using c by (auto simp: get_character_def add_favorite_character_row_def split: if_splits)
  have "favorite_character_by ?st1 current_user_id i = Some ?f"
    using n unfolding favorite_character_by_def add_favorite_character_row_def
    by (simp add: find_append_new new_favorite_character_def)
  then have "favorite_character_by ?st1 current_user_id i \<noteq> None" by simp
  with u1 c1 have second:
    "add_favorite_people ?st1 t2 i = (?st1, error_json ''Character is already in favorites'', 400)"
    by (rule add_favorite_people_duplicate)
  have cnt: "length (filter (\<lambda>f. fc_user_id f = current_user_id \<and> fc_character_id f = i)
      (favorite_characters ?st1)) = 1"
    using n by (simp add: favorite_character_by_def find_None_filter new_favorite_character_def
        add_favorite_character_row_def)
  show ?thesis
    using cnt by (simp add: first second status_code_def store_after_def)
qed

lemma favorite_planet_twice:
  assumes u: "get_user st current_user_id \<noteq> None" and c: "get_planet st i \<noteq> None"
    and n: "favorite_planet_by st current_user_id i = None"
  shows "status_code (add_favorite_planet st t1 i) = 201
    \<and> status_code (add_favorite_planet (store_after (add_favorite_planet st t1 i)) t2 i) = 400
    \<and> length (filter (\<lambda>f. fp_user_id f = current_user_id \<and> fp_planet_id f = i)
         (favorite_planets (store_after
            (add_favorite_planet (store_after (add_favorite_planet st t1 i)) t2 i)))) = 1"
proof -
  let ?f = "new_favorite_planet st t1 current_user_id i"
  let ?st1 = "add_favorite_planet_row st ?f"
  have first: "add_favorite_planet st t1 i = (?st1, Json (serialize_favorite_planet ?st1 ?f), 201)"
    using u c n by (rule add_favorite_planet_created)
  have u1: "get_user ?st1 current_user_id \<noteq> None"
    using u by (simp add: get_user_def add_favorite_planet_row_def)
  have c1: "get_planet ?st1 i \<noteq> None"
    using c by (auto simp: get_planet_def add_favorite_planet_row_def split: if_splits)
  have "favorite_planet_by ?st1 current_user_id i = Some ?f"
    using n unfolding favorite_planet_by_def add_favorite_planet_row_def
    by (simp add: find_append_new new_favorite_planet_def)
  then have "favorite_planet_by ?st1 current_user_id i \<noteq> None" by simp
  with u1 c1 have second:
    "add_favorite_planet ?st1 t2 i = (?st1, error_json ''Planet is already in favorites'', 400)"
    by (rule add_favorite_planet_duplicate)
  have cnt: "length (filter (\<lambda>f. fp_user_id f = current_user_id \<and> fp_planet_id f = i)
      (favorite_planets ?st1)) = 1"
    using n by (simp add: favorite_planet_by_def find_None_filter new_favorite_planet_def
        add_favorite_planet_row_def)
  show ?thesis
    using cnt by (simp add: first second status_code_def store_after_def)
qed

text \<open>
  C4. In a store with user 1 and the target, and no favorite row for the pair, the
  first of two successive calls of \<^verbatim>\<open>POST /favorite/people/{id}\<close> (resp.
  \<^verbatim>\<open>/favorite/planet/{id}\<close>) answers 201, the second one 400, and the store then holds
  exactly one favorite row with that user and that target.
\<close>

theorem favorite_twice:
  "(get_user st current_user_id \<noteq> None \<and> get_character st i \<noteq> None
      \<and> favorite_character_by st current_user_id i = None \<longrightarrow>
      status_code (add_favorite_people st t1 i) = 201
    \<and> status_code (add_favorite_people (store_after (add_favorite_people st t1 i)) t2 i) = 400
    \<and> length (filter (\<lambda>f. fc_user_id f = current_user_id \<and> fc_character_id f = i)
         (favorite_characters (store_after
            (add_favorite_people (store_after (add_favorite_people st t1 i)) t2 i)))) = 1)
  \<and> (get_user st current_user_id \<noteq> None \<and> get_planet st j \<noteq> None
      \<and> favorite_planet_by st current_user_id j = None \<longrightarrow>
      status_code (add_favorite_planet st t1 j) = 201
    \<and> status_code (add_favorite_planet (store_after (add_favorite_planet st t1 j)) t2 j) = 400
    \<and> length (filter (\<lambda>f. fp_user_id f = current_user_id \<and> fp_planet_id f = j)
         (favorite_planets (store_after
            (add_favorite_planet (store_after (add_favorite_planet st t1 j)) t2 j)))) = 1)"
  using favorite_people_twice [of st i t1 t2] favorite_planet_twice [of st j t1 t2]
  by blast

theorem favorite_twice_witness:
  "get_user demo_store current_user_id \<noteq> None \<and> get_character demo_store 2 \<noteq> None
   \<and> get_planet demo_store 1 \<noteq> None
   \<and> favorite_character_by demo_store current_user_id 2 = None
   \<and> favorite_planet_by demo_store current_user_id 1 = None
   \<and> status_code (add_favorite_people demo_store a_time 2) = 201
   \<and> status_code (add_favorite_people
        (store_after (add_favorite_people demo_store a_time 2)) later_time 2) = 400
   \<and> status_code (add_favorite_planet demo_store a_time 1) = 201
   \<and> status_code (add_favorite_planet
        (store_after (add_favorite_planet demo_store a_time 1)) later_time 1) = 400"
proof -
  have u: "get_user demo_store current_user_id \<noteq> None"
    by (simp add: current_user_id_def demo_get_user)
  have fc: "favorite_character_by demo_store current_user_id 2 = None"
    by (simp add: favorite_character_by_def demo_store_def)
  have fp: "favorite_planet_by demo_store current_user_id 1 = None"
    by (simp add: favorite_planet_by_def demo_store_def)
  show ?thesis
    using favorite_twice [of demo_store 2 a_time later_time 1] u fc fp
      demo_get_leia demo_get_tatooine
    by simp
qed

subsection \<open>Deleting a user\<close>

text \<open>
  C6. After the deletion of a user of the store, no row of \<^verbatim>\<open>favorite_characters\<close> and
  no row of \<^verbatim>\<open>favorite_planets\<close> has that user's id as \<^verbatim>\<open>user_id\<close>, the favorite rows
  of every other user are the same as before, in the same order, and the user is gone.
\<close>

theorem delete_user_cascades:
  assumes "get_user st uid \<noteq> None"
  shows "filter (\<lambda>f. fc_user_id f = uid) (favorite_characters (delete_user st uid)) = []
   \<and> filter (\<lambda>f. fp_user_id f = uid) (favorite_planets (delete_user st uid)) = []
   \<and> filter (\<lambda>f. fc_user_id f \<noteq> uid) (favorite_characters (delete_user st uid))
       = filter (\<lambda>f. fc_user_id f \<noteq> uid) (favorite_characters st)
   \<and> filter (\<lambda>f. fp_user_id f \<noteq> uid) (favorite_planets (delete_user st uid))
       = filter (\<lambda>f. fp_user_id f \<noteq> uid) (favorite_planets st)
   \<and> get_user (delete_user st uid) uid = None"
proof -
  from assms obtain u where u: "get_user st uid = Some u" by auto
  then have "u_id u = uid" by (rule get_user_id)
  with u show ?thesis
    by (simp add: delete_user_def get_user_def find_None_filter)
qed

theorem delete_user_cascades_witness:
  "get_user favorites_store 1 \<noteq> None
   \<and> filter (\<lambda>f. fc_user_id f = 1) (favorite_characters favorites_store) \<noteq> []
   \<and> filter (\<lambda>f. fc_user_id f = 1) (favorite_characters (delete_user favorites_store 1)) = []
   \<and> filter (\<lambda>f. fp_user_id f = 1) (favorite_planets (delete_user favorites_store 1)) = []
   \<and> favorite_characters (delete_user favorites_store 1)
       = [\<lparr>fc_id = 2, fc_user_id = 2, fc_character_id = 1, fc_created_at = Some a_time\<rparr>]"
proof -
  have u: "get_user favorites_store 1 \<noteq> None"
    by (simp add: get_user_def favorites_store_def demo_store_def user1_def)
  have k: "filter (\<lambda>f. fc_user_id f \<noteq> 1) (favorite_characters favorites_store)
      = [\<lparr>fc_id = 2, fc_user_id = 2, fc_character_id = 1, fc_created_at = Some a_time\<rparr>]"
    by (simp add: favorites_store_def)
  have n: "filter (\<lambda>f. fc_user_id f = 1) (favorite_characters favorites_store) \<noteq> []"
    by (simp add: favorites_store_def)
  have all: "favorite_characters (delete_user favorites_store 1)
      = filter (\<lambda>f. fc_user_id f \<noteq> 1) (favorite_characters (delete_user favorites_store 1))"
    by (simp add: delete_user_def get_user_def favorites_store_def demo_store_def user1_def)
  show ?thesis
    using delete_user_cascades [OF u] u k n all by simp
qed

end
